theory Spec2Isabelle
  imports Main
begin

section \<open>Python values used by config.py and app.py\<close>

text \<open>
  Strings are ASCII text. Every exception the two modules can raise is a value of
  \<open>error\<close>; a computation that may raise returns \<open>error + 'a\<close>.
\<close>

datatype error = ValueError | KeyError string | OverflowError | ArgumentError | RuntimeError

subsection \<open>\<open>int(str)\<close>\<close>

definition py_isspace :: "char \<Rightarrow> bool" where
  "py_isspace c = (c \<in> set [CHR 0x09, CHR 0x0A, CHR 0x0B, CHR 0x0C, CHR 0x0D, CHR 0x20])"

definition py_isdigit :: "char \<Rightarrow> bool" where
  "py_isdigit c = (c \<in> set ''0123456789'')"

definition digit_val :: "char \<Rightarrow> int" where
  "digit_val c = int (length (takeWhile (\<lambda>d. d \<noteq> c) ''0123456789''))"

fun double_underscore :: "string \<Rightarrow> bool" where
  "double_underscore (a # b # cs) = ((a = CHR ''_'' \<and> b = CHR ''_'') \<or> double_underscore (b # cs))"
| "double_underscore cs = False"

text \<open>The interpreter's default cap on the digits of a decimal literal, checked above 640 digits.\<close>

definition int_max_str_digits :: nat where
  "int_max_str_digits = 4300"

definition py_int :: "string \<Rightarrow> error + int" where
  "py_int s =
     (let s1 = dropWhile py_isspace s;
          neg = (case s1 of [] \<Rightarrow> False | c # _ \<Rightarrow> c = CHR ''-'');
          s2 = (case s1 of [] \<Rightarrow> [] | c # cs \<Rightarrow> if c = CHR ''+'' \<or> c = CHR ''-'' then cs else s1);
          body = takeWhile (\<lambda>c. py_isdigit c \<or> c = CHR ''_'') s2;
          rest = dropWhile (\<lambda>c. py_isdigit c \<or> c = CHR ''_'') s2;
          ds = filter py_isdigit body
      in if body = [] \<or> hd body = CHR ''_'' \<or> last body = CHR ''_'' \<or> double_underscore body
            \<or> dropWhile py_isspace rest \<noteq> []
         then Inl ValueError
         else if 640 < length ds \<and> 0 < int_max_str_digits \<and> int_max_str_digits < length ds
         then Inl ValueError
         else Inr ((if neg then - 1 else 1) * foldl (\<lambda>a c. 10 * a + digit_val c) 0 ds))"

subsection \<open>\<open>str.lower\<close> and \<open>str.split\<close>\<close>

definition lower_char :: "char \<Rightarrow> char" where
  "lower_char c =
     (case map_of (zip ''ABCDEFGHIJKLMNOPQRSTUVWXYZ'' ''abcdefghijklmnopqrstuvwxyz'') c of
        None \<Rightarrow> c | Some d \<Rightarrow> d)"

definition lower :: "string \<Rightarrow> string" where
  "lower s = map lower_char s"

fun split :: "char \<Rightarrow> string \<Rightarrow> string list" where
  "split sep [] = [[]]"
| "split sep (c # cs) =
     (if c = sep then [] # split sep cs
      else (case split sep cs of [] \<Rightarrow> [[c]] | w # ws \<Rightarrow> (c # w) # ws))"

definition is_upper_char :: "char \<Rightarrow> bool" where
  "is_upper_char c = (c \<in> set ''ABCDEFGHIJKLMNOPQRSTUVWXYZ'')"

definition is_lower_char :: "char \<Rightarrow> bool" where
  "is_lower_char c = (c \<in> set ''abcdefghijklmnopqrstuvwxyz'')"

text \<open>\<open>str.isupper\<close>: at least one cased character, and no lower-case one.\<close>

definition isupper :: "string \<Rightarrow> bool" where
  "isupper s = (list_ex is_upper_char s \<and> \<not> list_ex is_lower_char s)"

subsection \<open>\<open>pathlib\<close> paths (POSIX flavour)\<close>

record pure_path =
  anchor :: string
  parts :: "string list"

fun join :: "string \<Rightarrow> string list \<Rightarrow> string" where
  "join sep [] = []"
| "join sep [x] = x"
| "join sep (x # y # ys) = x @ sep @ join sep (y # ys)"

text \<open>\<open>p / name\<close>, for a relative one-component \<open>name\<close>.\<close>

definition path_div :: "pure_path \<Rightarrow> string \<Rightarrow> pure_path" where
  "path_div p name = p\<lparr>parts := parts p @ [name]\<rparr>"

definition path_str :: "pure_path \<Rightarrow> string" where
  "path_str p =
     (if parts p = [] then (if anchor p = [] then ''.'' else anchor p)
      else anchor p @ join ''/'' (parts p))"

subsection \<open>Values, objects and the store\<close>

text \<open>
  A list or a dictionary is a mutable object: a value of such a type is a reference into
  the store, and so is the mapping that holds an application's settings. Everything else
  config.py computes is immutable and is a value by itself.
\<close>

type_synonym addr = nat

datatype pyval =
    NoneV
  | BoolV bool
  | IntV int
  | StrV string
  | PathV pure_path
  | ListRef addr
  | DictRef addr

datatype obj =
    ListObj "string list"
  | DictObj "string \<rightharpoonup> pyval"

datatype subsystem = Database | Migration | Login

text \<open>
  The state outside the returned application: the object store with its allocation counter,
  the table names of each database (by connection string), and the subsystems initialised
  so far, each with the settings mapping of the application it was bound to.
\<close>

record world =
  heap :: "addr \<rightharpoonup> obj"
  next_addr :: addr
  db_tables :: "string \<Rightarrow> string set"
  initialized :: "(subsystem \<times> addr) list"

definition alloc :: "obj \<Rightarrow> world \<Rightarrow> addr \<times> world" where
  "alloc ob w = (next_addr w, w\<lparr>heap := (heap w)(next_addr w \<mapsto> ob), next_addr := Suc (next_addr w)\<rparr>)"

definition dict_update :: "addr \<Rightarrow> ((string \<rightharpoonup> pyval) \<Rightarrow> (string \<rightharpoonup> pyval)) \<Rightarrow> world \<Rightarrow> world" where
  "dict_update a f w =
     (case heap w a of
        Some (DictObj d) \<Rightarrow> w\<lparr>heap := (heap w)(a \<mapsto> DictObj (f d))\<rparr>
      | _ \<Rightarrow> w)"

text \<open>\<open>d[k]\<close> read through a reference; \<open>None\<close> when the key (or the mapping) is missing.\<close>

definition dict_get :: "world \<Rightarrow> addr \<Rightarrow> string \<Rightarrow> pyval option" where
  "dict_get w a k = (case heap w a of Some (DictObj d) \<Rightarrow> d k | _ \<Rightarrow> None)"

text \<open>\<open>d[k] = v\<close> and \<open>xs.append(x)\<close>, the two ways client code can change settings.\<close>

definition dict_setitem :: "addr \<Rightarrow> string \<Rightarrow> pyval \<Rightarrow> world \<Rightarrow> world" where
  "dict_setitem a k v w = dict_update a (\<lambda>d. d(k \<mapsto> v)) w"

definition list_append :: "addr \<Rightarrow> string \<Rightarrow> world \<Rightarrow> world" where
  "list_append a x w =
     (case heap w a of
        Some (ListObj xs) \<Rightarrow> w\<lparr>heap := (heap w)(a \<mapsto> ListObj (xs @ [x]))\<rparr>
      | _ \<Rightarrow> w)"

text \<open>The contents of a list value, read through its reference.\<close>

definition list_items :: "world \<Rightarrow> pyval \<Rightarrow> string list option" where
  "list_items w v =
     (case v of
        ListRef a \<Rightarrow> (case heap w a of Some (ListObj xs) \<Rightarrow> Some xs | _ \<Rightarrow> None)
      | _ \<Rightarrow> None)"

section \<open>config.py\<close>

type_synonym environ = "string \<rightharpoonup> string"

text \<open>\<open>os.environ.get(k, d)\<close> with a string default.\<close>

definition environ_get :: "environ \<Rightarrow> string \<Rightarrow> string \<Rightarrow> string" where
  "environ_get env k d = (case env k of None \<Rightarrow> d | Some v \<Rightarrow> v)"

text \<open>\<open>int(os.environ.get(k, d))\<close> with an integer default: only a set variable is parsed.\<close>

definition environ_get_int :: "environ \<Rightarrow> string \<Rightarrow> int \<Rightarrow> error + int" where
  "environ_get_int env k d = (case env k of None \<Rightarrow> Inr d | Some v \<Rightarrow> py_int v)"

text \<open>
  A class is the list of the attributes visible through it, the class's own before the
  inherited ones, so that \<open>getattr\<close> finds an override first.
\<close>

type_synonym pyclass = "(string \<times> pyval) list"

definition getattr :: "pyclass \<Rightarrow> string \<Rightarrow> pyval option" where
  "getattr cls k = map_of cls k"

text \<open>
  The body of \<open>class Config\<close>, run once when the module is imported. \<open>base_dir\<close> is
  \<open>Path(__file__).parent.parent\<close>. The \<open>split\<close> builds one list object; the two \<open>int\<close>
  calls may raise.
\<close>

definition Config :: "pure_path \<Rightarrow> environ \<Rightarrow> world \<Rightarrow> (error + pyclass) \<times> world" where
  "Config base_dir env w =
     (let (cors, w1) = alloc (ListObj (split CHR '','' (environ_get env ''CORS_ORIGINS''
                          ''http://localhost:5001,https://localhost:5001''))) w
      in case environ_get_int env ''LOG_MAX_BYTES'' (10 * 1024 * 1024) of
           Inl e \<Rightarrow> (Inl e, w1)
         | Inr max_bytes \<Rightarrow>
             (case environ_get_int env ''LOG_BACKUP_COUNT'' 5 of
                Inl e \<Rightarrow> (Inl e, w1)
              | Inr backup_count \<Rightarrow>
                  (Inr [(''BASE_DIR'', PathV base_dir),
                        (''SECRET_KEY'', StrV (environ_get env ''SECRET_KEY'' ''dev-key-change-in-production'')),
                        (''SQLALCHEMY_DATABASE_URI'', StrV (environ_get env ''DATABASE_URL''
                           (''sqlite:///'' @ path_str (path_div (path_div base_dir ''data'') ''orb.db'')))),
                        (''SQLALCHEMY_TRACK_MODIFICATIONS'', BoolV False),
                        (''SOUNDING_TABLES_PATH'', PathV (path_div (path_div base_dir ''data'') ''sounding_tables.json'')),
                        (''WTF_CSRF_ENABLED'', BoolV True),
                        (''WTF_CSRF_TIME_LIMIT'', IntV 3600),
                        (''MAX_CONTENT_LENGTH'', IntV (16 * 1024 * 1024)),
                        (''RATELIMIT_STORAGE_URL'', StrV (environ_get env ''REDIS_URL'' ''memory://'')),
                        (''CORS_ORIGINS'', ListRef cors),
                        (''SESSION_COOKIE_SECURE'', BoolV (lower (environ_get env ''SESSION_SECURE'' ''False'') = ''true'')),
                        (''SESSION_COOKIE_HTTPONLY'', BoolV True),
                        (''SESSION_COOKIE_SAMESITE'', StrV ''Lax''),
                        (''LOG_LEVEL'', StrV (environ_get env ''LOG_LEVEL'' ''INFO'')),
                        (''LOG_DIR'', PathV (path_div base_dir ''logs'')),
                        (''LOG_JSON_FORMAT'', BoolV (lower (environ_get env ''LOG_JSON_FORMAT'' ''True'') = ''true'')),
                        (''LOG_MAX_BYTES'', IntV max_bytes),
                        (''LOG_BACKUP_COUNT'', IntV backup_count)], w1)))"

definition DevelopmentConfig :: "environ \<Rightarrow> pyclass \<Rightarrow> pyclass" where
  "DevelopmentConfig env base =
     [(''DEBUG'', BoolV True),
      (''LOG_LEVEL'', StrV (environ_get env ''LOG_LEVEL'' ''DEBUG'')),
      (''LOG_JSON_FORMAT'', BoolV (lower (environ_get env ''LOG_JSON_FORMAT'' ''False'') = ''true''))] @ base"

definition ProductionConfig :: "environ \<Rightarrow> pyclass \<Rightarrow> pyclass" where
  "ProductionConfig env base =
     [(''DEBUG'', BoolV False),
      (''LOG_LEVEL'', StrV (environ_get env ''LOG_LEVEL'' ''INFO'')),
      (''LOG_JSON_FORMAT'', BoolV True)] @ base"

definition TestingConfig :: "pyclass \<Rightarrow> pyclass" where
  "TestingConfig base =
     [(''TESTING'', BoolV True),
      (''SQLALCHEMY_DATABASE_URI'', StrV ''sqlite:///:memory:''),
      (''LOG_LEVEL'', StrV ''WARNING''),
      (''LOG_JSON_FORMAT'', BoolV False)] @ base"

text \<open>
  Importing the module: the four class bodies in order, then the dictionary \<open>config\<close>.
  \<open>"development"\<close> and \<open>"default"\<close> name the same class.
\<close>

definition config :: "pure_path \<Rightarrow> environ \<Rightarrow> world \<Rightarrow> (error + (string \<times> pyclass) list) \<times> world" where
  "config base_dir env w =
     (case Config base_dir env w of
        (Inl e, w1) \<Rightarrow> (Inl e, w1)
      | (Inr base, w1) \<Rightarrow>
          (let development = DevelopmentConfig env base;
               production = ProductionConfig env base;
               testing = TestingConfig base
           in (Inr [(''development'', development),
                    (''production'', production),
                    (''testing'', testing),
                    (''default'', development)], w1)))"

section \<open>app.py\<close>

subsection \<open>The application object and what the framework does to it\<close>

text \<open>
  Modelled from the spec: the \<open>User\<close> model of models.py, a persisted entity with an
  integer identifier; \<open>details\<close> stands for its other columns, which are not visible.
\<close>

record user =
  pk :: int
  details :: string

text \<open>
  \<open>User.query.get(n)\<close> over the rows of the user table, as the SQLite database of the
  profiles answers it: the row with that key, or None; a key that does not fit a signed
  64-bit integer cannot be bound to the query, and the driver raises OverflowError.
\<close>

definition query_get :: "user list \<Rightarrow> int \<Rightarrow> error + user option" where
  "query_get users n =
     (if - (2 ^ 63) \<le> n \<and> n < 2 ^ 63 then Inr (find (\<lambda>u. pk u = n) users)
      else Inl OverflowError)"

datatype view =
    SendStaticFile
  | RenderTemplate string "(string \<times> pyval) list"

record url_rule =
  rule :: string
  endpoint :: string
  login_required :: bool
  view_func :: view

record login_manager =
  login_view :: "string option"
  login_message :: string
  login_message_category :: string
  user_callback :: "(user list \<Rightarrow> string \<Rightarrow> error + user option) option"

record app =
  config_ref :: addr
  template_folder :: string
  static_folder :: string
  extensions :: "string list"
  app_login_manager :: "login_manager option"
  blueprints :: "(string \<times> string) list"
  url_map :: "url_rule list"

text \<open>
  \<open>Flask(__name__, template_folder=..., static_folder=...)\<close>: a new settings mapping holding
  the framework's defaults, and the rule that serves the static folder.
\<close>

definition Flask :: "(string \<rightharpoonup> pyval) \<Rightarrow> string \<Rightarrow> string \<Rightarrow> world \<Rightarrow> app \<times> world" where
  "Flask default_config tf sf w =
     (let (a, w1) = alloc (DictObj default_config) w
      in (\<lparr>config_ref = a, template_folder = tf, static_folder = sf, extensions = [],
           app_login_manager = None, blueprints = [],
           url_map = [\<lparr>rule = ''/'' @ last (split CHR ''/'' sf) @ ''/<path:filename>'',
                       endpoint = ''static'', login_required = False,
                       view_func = SendStaticFile\<rparr>]\<rparr>, w1))"

text \<open>
  \<open>app.config.from_object(cls)\<close>: every upper-case attribute of the class is stored under
  its name, over what the mapping held.
\<close>

definition from_object :: "pyclass \<Rightarrow> (string \<rightharpoonup> pyval) \<Rightarrow> (string \<rightharpoonup> pyval)" where
  "from_object cls d = d ++ map_of (filter (\<lambda>(k, v). isupper k) cls)"

text \<open>\<open>d.setdefault(k, v)\<close>: a key that is present keeps its value.\<close>

definition dict_setdefault :: "string \<Rightarrow> pyval \<Rightarrow> (string \<rightharpoonup> pyval) \<Rightarrow> (string \<rightharpoonup> pyval)" where
  "dict_setdefault k v d = (case d k of None \<Rightarrow> d(k \<mapsto> v) | Some x \<Rightarrow> d)"

definition is_name_char :: "char \<Rightarrow> bool" where
  "is_name_char c =
     (c \<in> set ''abcdefghijklmnopqrstuvwxyzABCDEFGHIJKLMNOPQRSTUVWXYZ0123456789_+'')"

text \<open>
  Whether the database library can read a string as a connection URL: it has to begin
  with a name of letters, digits, \<open>_\<close> and \<open>+\<close>, followed by \<open>://\<close>.
\<close>

definition parses_url :: "string \<Rightarrow> bool" where
  "parses_url s =
     (takeWhile is_name_char s \<noteq> [] \<and> take 3 (dropWhile is_name_char s) = ''://'')"

text \<open>
  \<open>db.init_app(app)\<close>. The extension registers itself and fills in the settings it reads,
  two of them with a new empty dictionary each; it then makes the engine for
  \<open>SQLALCHEMY_DATABASE_URI\<close>, raising ArgumentError when the string is no URL (and
  RuntimeError when there is none). Engines connect lazily, so no database is touched; the
  dialect the URL names is taken to be installed.
\<close>

definition db_init_app :: "app \<Rightarrow> world \<Rightarrow> (error + app) \<times> world" where
  "db_init_app ap w =
     (let ap = ap\<lparr>extensions := extensions ap @ [''sqlalchemy'']\<rparr>;
          w = dict_update (config_ref ap) (dict_setdefault ''SQLALCHEMY_DATABASE_URI'' NoneV) w;
          (engine_options, w) = alloc (DictObj Map.empty) w;
          w = dict_update (config_ref ap)
                (dict_setdefault ''SQLALCHEMY_ENGINE_OPTIONS'' (DictRef engine_options)) w;
          w = dict_update (config_ref ap) (dict_setdefault ''SQLALCHEMY_ECHO'' (BoolV False)) w;
          (binds, w) = alloc (DictObj Map.empty) w;
          w = dict_update (config_ref ap) (dict_setdefault ''SQLALCHEMY_BINDS'' (DictRef binds)) w
      in case dict_get w (config_ref ap) ''SQLALCHEMY_DATABASE_URI'' of
           Some (StrV uri) \<Rightarrow>
             if parses_url uri
             then (let w = dict_update (config_ref ap)
                             (dict_setdefault ''SQLALCHEMY_RECORD_QUERIES'' (BoolV False)) w
                   in (Inr ap, w\<lparr>initialized := initialized w @ [(Database, config_ref ap)]\<rparr>))
             else (Inl ArgumentError, w)
         | _ \<Rightarrow> (Inl RuntimeError, w))"

text \<open>
  What \<open>db.init_app\<close> has made of a settings mapping \<open>d\<close> when it returns; \<open>eo\<close> and \<open>binds\<close>
  are the two new dictionaries.
\<close>

definition sqlalchemy_settings :: "addr \<Rightarrow> addr \<Rightarrow> (string \<rightharpoonup> pyval) \<Rightarrow> (string \<rightharpoonup> pyval)" where
  "sqlalchemy_settings eo binds d =
     dict_setdefault ''SQLALCHEMY_RECORD_QUERIES'' (BoolV False)
       (dict_setdefault ''SQLALCHEMY_BINDS'' (DictRef binds)
         (dict_setdefault ''SQLALCHEMY_ECHO'' (BoolV False)
           (dict_setdefault ''SQLALCHEMY_ENGINE_OPTIONS'' (DictRef eo)
             (dict_setdefault ''SQLALCHEMY_DATABASE_URI'' NoneV d))))"

text \<open>\<open>Migrate(app, db)\<close> registers the migration extension on the application.\<close>

definition Migrate :: "app \<Rightarrow> world \<Rightarrow> app \<times> world" where
  "Migrate ap w =
     (ap\<lparr>extensions := extensions ap @ [''migrate'']\<rparr>,
      w\<lparr>initialized := initialized w @ [(Migration, config_ref ap)]\<rparr>)"

text \<open>\<open>LoginManager()\<close> as the library constructs it.\<close>

definition LoginManager :: login_manager where
  "LoginManager = \<lparr>login_view = None, login_message = ''Please log in to access this page.'',
                    login_message_category = ''message'', user_callback = None\<rparr>"

text \<open>
  \<open>login_manager.init_app(app)\<close> stores the manager on the application; the application
  refers to the one manager object, so the attributes set on it afterwards are set here.
\<close>

definition login_init_app :: "login_manager \<Rightarrow> app \<Rightarrow> world \<Rightarrow> app \<times> world" where
  "login_init_app lm ap w =
     (ap\<lparr>app_login_manager := Some lm\<rparr>,
      w\<lparr>initialized := initialized w @ [(Login, config_ref ap)]\<rparr>)"

definition set_login_manager :: "(login_manager \<Rightarrow> login_manager) \<Rightarrow> app \<Rightarrow> app" where
  "set_login_manager f ap = ap\<lparr>app_login_manager := map_option f (app_login_manager ap)\<rparr>"

definition register_blueprint :: "string \<Rightarrow> string \<Rightarrow> app \<Rightarrow> app" where
  "register_blueprint bp url_prefix ap = ap\<lparr>blueprints := blueprints ap @ [(bp, url_prefix)]\<rparr>"

text \<open>\<open>@app.route(r)\<close> on a function named \<open>name\<close> that carries no other decorator.\<close>

definition route :: "string \<Rightarrow> string \<Rightarrow> view \<Rightarrow> app \<Rightarrow> app" where
  "route r name v ap =
     ap\<lparr>url_map := url_map ap @ [\<lparr>rule = r, endpoint = name, login_required = False, view_func = v\<rparr>]\<rparr>"

text \<open>
  \<open>db.create_all()\<close>, which creates the table of every model in the configured database.
  The factory does not call it (app.py, line 44: removed in favour of migrations).
\<close>

definition create_all :: "string list \<Rightarrow> string \<Rightarrow> world \<Rightarrow> world" where
  "create_all models uri w = w\<lparr>db_tables := (db_tables w)(uri := db_tables w uri \<union> set models)\<rparr>"

subsection \<open>\<open>create_app\<close>\<close>

definition load_user :: "user list \<Rightarrow> string \<Rightarrow> error + user option" where
  "load_user users user_id =
     (case py_int user_id of
        Inl e \<Rightarrow> Inl e
      | Inr n \<Rightarrow> query_get users n)"

text \<open>
  \<open>default_config\<close> is the framework's default settings and \<open>cfg\<close> the dictionary \<open>config\<close>
  of the imported config module. The lookup \<open>config[config_name]\<close> comes after the
  application object is constructed and before every \<open>init_app\<close>; an exception of
  \<open>db.init_app\<close> ends the call.
\<close>

definition create_app ::
  "(string \<rightharpoonup> pyval) \<Rightarrow> (string \<times> pyclass) list \<Rightarrow> environ \<Rightarrow> string option \<Rightarrow> world
     \<Rightarrow> (error + app) \<times> world" where
  "create_app default_config cfg env config_name w =
     (let config_name = (case config_name of
                           None \<Rightarrow> environ_get env ''FLASK_ENV'' ''development''
                         | Some n \<Rightarrow> n);
          (ap, w) = Flask default_config ''../templates'' ''../static'' w
      in case map_of cfg config_name of
           None \<Rightarrow> (Inl (KeyError config_name), w)
         | Some cls \<Rightarrow>
             (let w = dict_update (config_ref ap) (from_object cls) w
              in case db_init_app ap w of
                   (Inl e, w) \<Rightarrow> (Inl e, w)
                 | (Inr ap, w) \<Rightarrow>
                     (let (ap, w) = Migrate ap w;
                          (ap, w) = login_init_app LoginManager ap w;
                          ap = set_login_manager (\<lambda>lm. lm\<lparr>login_view := Some ''auth.login''\<rparr>) ap;
                          ap = set_login_manager (\<lambda>lm. lm\<lparr>login_message := ''Please log in to access this page.''\<rparr>) ap;
                          ap = set_login_manager (\<lambda>lm. lm\<lparr>login_message_category := ''info''\<rparr>) ap;
                          ap = set_login_manager (\<lambda>lm. lm\<lparr>user_callback := Some load_user\<rparr>) ap;
                          ap = register_blueprint ''routes.api.api_bp'' ''/api'' ap;
                          ap = route ''/'' ''dashboard'' (RenderTemplate ''dashboard.html'' []) ap;
                          ap = route ''/soundings'' ''weekly_soundings'' (RenderTemplate ''soundings.html'' []) ap;
                          ap = route ''/history'' ''history'' (RenderTemplate ''history.html'' []) ap;
                          ap = route ''/fuel'' ''fuel_tickets'' (RenderTemplate ''fuel.html'' []) ap;
                          ap = route ''/new-hitch'' ''new_hitch'' (RenderTemplate ''new_hitch.html'' []) ap
                      in (Inr ap, w))))"

text \<open>The settings of an application, read through its reference.\<close>

definition app_config :: "world \<Rightarrow> app \<Rightarrow> string \<Rightarrow> pyval option" where
  "app_config w ap k = dict_get w (config_ref ap) k"

text \<open>
  \<open>ap.config[k].append(x)\<close> and the items of \<open>ap.config[k]\<close>, for a list-valued setting.
\<close>

definition append_setting :: "world \<Rightarrow> app \<Rightarrow> string \<Rightarrow> string \<Rightarrow> world" where
  "append_setting w ap k x =
     (case app_config w ap k of
        Some (ListRef a) \<Rightarrow> list_append a x w
      | _ \<Rightarrow> w)"

definition setting_items :: "world \<Rightarrow> app \<Rightarrow> string \<Rightarrow> string list option" where
  "setting_items w ap k =
     (case app_config w ap k of
        Some v \<Rightarrow> list_items w v
      | None \<Rightarrow> None)"

section \<open>Example inputs\<close>

definition ex_base :: pure_path where
  "ex_base = \<lparr>anchor = ''/'', parts = [''srv'', ''orb'']\<rparr>"

definition ex_world :: world where
  "ex_world = \<lparr>heap = Map.empty, next_addr = 0, db_tables = (\<lambda>uri. {}), initialized = []\<rparr>"

definition no_env :: environ where
  "no_env = Map.empty"

definition ex_defaults :: "string \<rightharpoonup> pyval" where
  "ex_defaults = [''DEBUG'' \<mapsto> NoneV, ''TESTING'' \<mapsto> BoolV False]"


text \<open>The module imported in an empty environment, and the factory called twice after it.\<close>

definition ex_imported :: "(error + (string \<times> pyclass) list) \<times> world" where
  "ex_imported = config ex_base no_env ex_world"

definition ex_first :: "(error + app) \<times> world" where
  "ex_first = create_app ex_defaults (projr (fst ex_imported)) no_env None (snd ex_imported)"

definition ex_second :: "(error + app) \<times> world" where
  "ex_second = create_app ex_defaults (projr (fst ex_imported)) no_env None (snd ex_first)"

section \<open>Facts about the model\<close>

subsection \<open>The settings mapping and \<open>db.init_app\<close>\<close>

lemma dict_update_at:
  "heap w a = Some (DictObj d) \<Longrightarrow> dict_update a f w = w\<lparr>heap := (heap w)(a \<mapsto> DictObj (f d))\<rparr>"
  by (simp add: dict_update_def)

lemma dict_setdefault_other: "k' \<noteq> k \<Longrightarrow> dict_setdefault k v d k' = d k'"
  by (simp add: dict_setdefault_def split: option.splits)

lemma dict_setdefault_same:
  "dict_setdefault k v d k = (case d k of None \<Rightarrow> Some v | Some x \<Rightarrow> Some x)"
  by (simp add: dict_setdefault_def split: option.splits)

lemma dict_setdefault_present: "d k = Some x \<Longrightarrow> dict_setdefault k v d = d"
  by (simp add: dict_setdefault_def)

lemma dict_setdefault_keeps: "d k' = Some x \<Longrightarrow> dict_setdefault k v d k' = Some x"
  by (auto simp: dict_setdefault_def split: option.splits)

lemma sqlalchemy_settings_keeps: "d k = Some x \<Longrightarrow> sqlalchemy_settings eo binds d k = Some x"
  by (simp add: sqlalchemy_settings_def dict_setdefault_keeps)

lemma db_init_app_success:
  assumes "heap w a = Some (DictObj d)" "config_ref ap = a"
      and "a \<noteq> next_addr w" "a \<noteq> Suc (next_addr w)"
      and "d ''SQLALCHEMY_DATABASE_URI'' = Some (StrV uri)" "parses_url uri"
  shows "db_init_app ap w =
           (Inr (ap\<lparr>extensions := extensions ap @ [''sqlalchemy'']\<rparr>),
            w\<lparr>heap := (heap w)
                  (next_addr w \<mapsto> DictObj Map.empty,
                   Suc (next_addr w) \<mapsto> DictObj Map.empty,
                   a \<mapsto> DictObj (sqlalchemy_settings (next_addr w) (Suc (next_addr w)) d)),
              next_addr := Suc (Suc (next_addr w)),
              initialized := initialized w @ [(Database, a)]\<rparr>)"
  using assms
  by (simp add: db_init_app_def Let_def alloc_def dict_update_at dict_get_def
        dict_setdefault_other dict_setdefault_present sqlalchemy_settings_def)

lemma db_init_app_failure:
  assumes "heap w a = Some (DictObj d)" "config_ref ap = a"
      and "a \<noteq> next_addr w" "a \<noteq> Suc (next_addr w)"
      and "\<And>uri. d ''SQLALCHEMY_DATABASE_URI'' = Some (StrV uri) \<Longrightarrow> \<not> parses_url uri"
  shows "\<exists>e w'. db_init_app ap w = (Inl e, w') \<and> e \<in> {ArgumentError, RuntimeError}
           \<and> db_tables w' = db_tables w \<and> initialized w' = initialized w"
  using assms
  by (cases "d ''SQLALCHEMY_DATABASE_URI''")
     (auto simp: db_init_app_def Let_def alloc_def dict_update_at dict_get_def
        dict_setdefault_other dict_setdefault_same split: pyval.splits)


subsection \<open>What a call of the factory returns\<close>

lemma create_app_resolve:
  "create_app dc cfg env None w =
     create_app dc cfg env (Some (environ_get env ''FLASK_ENV'' ''development'')) w"
  by (simp add: create_app_def)

lemma create_app_None:
  assumes "map_of cfg n = None"
  shows "create_app dc cfg env (Some n) w =
           (Inl (KeyError n), w\<lparr>heap := (heap w)(next_addr w \<mapsto> DictObj dc), next_addr := Suc (next_addr w)\<rparr>)"
  using assms
  by (simp add: create_app_def Let_def Flask_def alloc_def)

lemma create_app_succeeds:
  assumes "map_of cfg n = Some cls"
      and "from_object cls dc ''SQLALCHEMY_DATABASE_URI'' = Some (StrV uri)" and "parses_url uri"
  shows "create_app dc cfg env (Some n) w =
     (Inr \<lparr>config_ref = next_addr w, template_folder = ''../templates'', static_folder = ''../static'',
           extensions = [''sqlalchemy'', ''migrate''],
           app_login_manager = Some \<lparr>login_view = Some ''auth.login'',
              login_message = ''Please log in to access this page.'',
              login_message_category = ''info'', user_callback = Some load_user\<rparr>,
           blueprints = [(''routes.api.api_bp'', ''/api'')],
           url_map =
             [\<lparr>rule = ''/static/<path:filename>'', endpoint = ''static'', login_required = False,
                view_func = SendStaticFile\<rparr>,
              \<lparr>rule = ''/'', endpoint = ''dashboard'', login_required = False,
                view_func = RenderTemplate ''dashboard.html'' []\<rparr>,
              \<lparr>rule = ''/soundings'', endpoint = ''weekly_soundings'', login_required = False,
                view_func = RenderTemplate ''soundings.html'' []\<rparr>,
              \<lparr>rule = ''/history'', endpoint = ''history'', login_required = False,
                view_func = RenderTemplate ''history.html'' []\<rparr>,
              \<lparr>rule = ''/fuel'', endpoint = ''fuel_tickets'', login_required = False,
                view_func = RenderTemplate ''fuel.html'' []\<rparr>,
              \<lparr>rule = ''/new-hitch'', endpoint = ''new_hitch'', login_required = False,
                view_func = RenderTemplate ''new_hitch.html'' []\<rparr>]\<rparr>,
      w\<lparr>heap := (heap w)
            (next_addr w \<mapsto> DictObj (sqlalchemy_settings (Suc (next_addr w)) (Suc (Suc (next_addr w)))
                                      (from_object cls dc)),
             Suc (next_addr w) \<mapsto> DictObj Map.empty,
             Suc (Suc (next_addr w)) \<mapsto> DictObj Map.empty),
        next_addr := Suc (Suc (Suc (next_addr w))),
        initialized := initialized w @ [(Database, next_addr w), (Migration, next_addr w),
                                        (Login, next_addr w)]\<rparr>)"
proof -
  let ?ap = "\<lparr>config_ref = next_addr w, template_folder = ''../templates'', static_folder = ''../static'',
              extensions = [], app_login_manager = None, blueprints = [],
              url_map = [\<lparr>rule = ''/static/<path:filename>'', endpoint = ''static'',
                          login_required = False, view_func = SendStaticFile\<rparr>]\<rparr>"
  let ?w1 = "w\<lparr>next_addr := Suc (next_addr w),
               heap := (heap w)(next_addr w \<mapsto> DictObj (from_object cls dc))\<rparr>"
  note d = db_init_app_success [of ?w1 "next_addr w" "from_object cls dc" ?ap uri, simplified,
      OF assms(2,3)]
  have h: "(heap w)
            (next_addr w \<mapsto> DictObj (sqlalchemy_settings (Suc (next_addr w)) (Suc (Suc (next_addr w)))
                                      (from_object cls dc)),
             Suc (next_addr w) \<mapsto> DictObj Map.empty,
             Suc (Suc (next_addr w)) \<mapsto> DictObj Map.empty)
          = (heap w)
            (next_addr w \<mapsto> DictObj (from_object cls dc),
             Suc (next_addr w) \<mapsto> DictObj Map.empty,
             Suc (Suc (next_addr w)) \<mapsto> DictObj Map.empty,
             next_addr w \<mapsto> DictObj (sqlalchemy_settings (Suc (next_addr w)) (Suc (Suc (next_addr w)))
                                      (from_object cls dc)))"
    by (rule ext) simp
  show ?thesis
    using assms(1)
    by (simp add: create_app_def Let_def Flask_def alloc_def dict_update_def d Migrate_def
        login_init_app_def set_login_manager_def register_blueprint_def route_def LoginManager_def h)
qed

lemma create_app_fails:
  assumes "map_of cfg n = Some cls"
      and "\<not> (\<exists>uri. from_object cls dc ''SQLALCHEMY_DATABASE_URI'' = Some (StrV uri) \<and> parses_url uri)"
  shows "\<exists>e w'. create_app dc cfg env (Some n) w = (Inl e, w') \<and> e \<in> {ArgumentError, RuntimeError}
           \<and> db_tables w' = db_tables w \<and> initialized w' = initialized w"
proof -
  let ?ap = "\<lparr>config_ref = next_addr w, template_folder = ''../templates'', static_folder = ''../static'',
              extensions = [], app_login_manager = None, blueprints = [],
              url_map = [\<lparr>rule = ''/static/<path:filename>'', endpoint = ''static'',
                          login_required = False, view_func = SendStaticFile\<rparr>]\<rparr>"
  let ?w1 = "w\<lparr>next_addr := Suc (next_addr w),
               heap := (heap w)(next_addr w \<mapsto> DictObj (from_object cls dc))\<rparr>"
  have "\<And>uri. from_object cls dc ''SQLALCHEMY_DATABASE_URI'' = Some (StrV uri) \<Longrightarrow> \<not> parses_url uri"
    using assms(2) by blast
  from db_init_app_failure [of ?w1 "next_addr w" "from_object cls dc" ?ap, simplified, OF this]
  obtain e w' where d: "db_init_app ?ap ?w1 = (Inl e, w')" and e: "e \<in> {ArgumentError, RuntimeError}"
    and t: "db_tables w' = db_tables w" "initialized w' = initialized w"
    by auto
  have "create_app dc cfg env (Some n) w = (Inl e, w')"
    using assms(1) by (simp add: create_app_def Let_def Flask_def alloc_def dict_update_def d)
  with e t show ?thesis by blast
qed

lemma create_app_Some_Inr:
  assumes "create_app dc cfg env (Some n) w = (Inr ap, w')" and "map_of cfg n = Some cls"
  shows "\<exists>uri. from_object cls dc ''SQLALCHEMY_DATABASE_URI'' = Some (StrV uri) \<and> parses_url uri"
proof (rule ccontr)
  assume "\<not> ?thesis"
  from create_app_fails [OF assms(2) this, where env = env and w = w] assms(1) show False by auto
qed

lemma create_app_Inr:
  assumes "create_app dc cfg env nm w = (Inr ap, w')"
  shows "\<exists>n cls. map_of cfg n = Some cls \<and> create_app dc cfg env (Some n) w = (Inr ap, w')"
proof -
  define n where "n = (case nm of None \<Rightarrow> environ_get env ''FLASK_ENV'' ''development'' | Some n \<Rightarrow> n)"
  have eq: "create_app dc cfg env nm w = create_app dc cfg env (Some n) w"
    by (cases nm) (simp_all add: n_def create_app_resolve)
  show ?thesis
  proof (cases "map_of cfg n")
    case None
    with assms eq show ?thesis by (simp add: create_app_None)
  next
    case (Some cls)
    with assms eq show ?thesis by auto
  qed
qed

lemma create_app_result:
  assumes "create_app dc cfg env (Some n) w = (Inr ap, w')" and "map_of cfg n = Some cls"
  shows "config_ref ap = next_addr w"
    and "heap w' = (heap w)
            (next_addr w \<mapsto> DictObj (sqlalchemy_settings (Suc (next_addr w)) (Suc (Suc (next_addr w)))
                                      (from_object cls dc)),
             Suc (next_addr w) \<mapsto> DictObj Map.empty,
             Suc (Suc (next_addr w)) \<mapsto> DictObj Map.empty)"
    and "next_addr w' = Suc (Suc (Suc (next_addr w)))"
    and "initialized w' = initialized w @ [(Database, next_addr w), (Migration, next_addr w),
                                        (Login, next_addr w)]"
    and "extensions ap = [''sqlalchemy'', ''migrate'']"
    and "app_login_manager ap = Some \<lparr>login_view = Some ''auth.login'',
              login_message = ''Please log in to access this page.'',
              login_message_category = ''info'', user_callback = Some load_user\<rparr>"
    and "blueprints ap = [(''routes.api.api_bp'', ''/api'')]"
    and "url_map ap =
             [\<lparr>rule = ''/static/<path:filename>'', endpoint = ''static'', login_required = False,
                view_func = SendStaticFile\<rparr>,
              \<lparr>rule = ''/'', endpoint = ''dashboard'', login_required = False,
                view_func = RenderTemplate ''dashboard.html'' []\<rparr>,
              \<lparr>rule = ''/soundings'', endpoint = ''weekly_soundings'', login_required = False,
                view_func = RenderTemplate ''soundings.html'' []\<rparr>,
              \<lparr>rule = ''/history'', endpoint = ''history'', login_required = False,
                view_func = RenderTemplate ''history.html'' []\<rparr>,
              \<lparr>rule = ''/fuel'', endpoint = ''fuel_tickets'', login_required = False,
                view_func = RenderTemplate ''fuel.html'' []\<rparr>,
              \<lparr>rule = ''/new-hitch'', endpoint = ''new_hitch'', login_required = False,
                view_func = RenderTemplate ''new_hitch.html'' []\<rparr>]"
proof -
  from create_app_Some_Inr [OF assms] obtain uri
    where u: "from_object cls dc ''SQLALCHEMY_DATABASE_URI'' = Some (StrV uri)" "parses_url uri"
    by blast
  note e = assms(1) [unfolded create_app_succeeds [OF assms(2) u], simplified]
  show "config_ref ap = next_addr w" using e by auto
  show "heap w' = (heap w)
            (next_addr w \<mapsto> DictObj (sqlalchemy_settings (Suc (next_addr w)) (Suc (Suc (next_addr w)))
                                      (from_object cls dc)),
             Suc (next_addr w) \<mapsto> DictObj Map.empty,
             Suc (Suc (next_addr w)) \<mapsto> DictObj Map.empty)" using e by auto
  show "next_addr w' = Suc (Suc (Suc (next_addr w)))" using e by auto
  show "initialized w' = initialized w @ [(Database, next_addr w), (Migration, next_addr w),
                                        (Login, next_addr w)]" using e by auto
  show "extensions ap = [''sqlalchemy'', ''migrate'']" using e by auto
  show "app_login_manager ap = Some \<lparr>login_view = Some ''auth.login'',
              login_message = ''Please log in to access this page.'',
              login_message_category = ''info'', user_callback = Some load_user\<rparr>" using e by auto
  show "blueprints ap = [(''routes.api.api_bp'', ''/api'')]" using e by auto
  show "url_map ap =
             [\<lparr>rule = ''/static/<path:filename>'', endpoint = ''static'', login_required = False,
                view_func = SendStaticFile\<rparr>,
              \<lparr>rule = ''/'', endpoint = ''dashboard'', login_required = False,
                view_func = RenderTemplate ''dashboard.html'' []\<rparr>,
              \<lparr>rule = ''/soundings'', endpoint = ''weekly_soundings'', login_required = False,
                view_func = RenderTemplate ''soundings.html'' []\<rparr>,
              \<lparr>rule = ''/history'', endpoint = ''history'', login_required = False,
                view_func = RenderTemplate ''history.html'' []\<rparr>,
              \<lparr>rule = ''/fuel'', endpoint = ''fuel_tickets'', login_required = False,
                view_func = RenderTemplate ''fuel.html'' []\<rparr>,
              \<lparr>rule = ''/new-hitch'', endpoint = ''new_hitch'', login_required = False,
                view_func = RenderTemplate ''new_hitch.html'' []\<rparr>]" using e by auto
qed

lemma from_object_upper:
  assumes "isupper k" "getattr cls k = Some v"
  shows "from_object cls d k = Some v"
proof -
  have "map_of (filter (\<lambda>(k, v). isupper k) cls) k = Some v"
    using assms by (induction cls) (auto simp: getattr_def)
  then show ?thesis by (simp add: from_object_def)
qed

lemma create_app_class_key:
  assumes "create_app dc cfg env (Some n) w = (Inr ap, w')" and "map_of cfg n = Some cls"
      and "isupper k" and "getattr cls k = Some v"
  shows "app_config w' ap k = Some v"
  using create_app_result(1,2) [OF assms(1,2)]
  by (simp add: app_config_def dict_get_def sqlalchemy_settings_keeps
        from_object_upper [OF assms(3,4)])

lemma create_app_same_class:
  assumes "map_of cfg n = Some cls" and "map_of cfg m = Some cls"
  shows "create_app dc cfg env (Some n) w = create_app dc cfg env (Some m) w"
  using assms by (simp add: create_app_def Let_def split: prod.splits)

lemma create_app_tables: "db_tables (snd (create_app dc cfg env nm w)) = db_tables w"
proof -
  define n where "n = (case nm of None \<Rightarrow> environ_get env ''FLASK_ENV'' ''development'' | Some n \<Rightarrow> n)"
  have eq: "create_app dc cfg env nm w = create_app dc cfg env (Some n) w"
    by (cases nm) (simp_all add: n_def create_app_resolve)
  show ?thesis
  proof (cases "map_of cfg n")
    case None
    then show ?thesis by (simp add: eq create_app_None)
  next
    case (Some cls)
    show ?thesis
    proof (cases "\<exists>uri. from_object cls dc ''SQLALCHEMY_DATABASE_URI'' = Some (StrV uri) \<and> parses_url uri")
      case True
      then obtain uri where "from_object cls dc ''SQLALCHEMY_DATABASE_URI'' = Some (StrV uri)"
        "parses_url uri" by blast
      from create_app_succeeds [OF Some this] show ?thesis by (simp add: eq)
    next
      case False
      from create_app_fails [OF Some this, where env = env and w = w] show ?thesis by (auto simp: eq)
    qed
  qed
qed

lemma parses_sqlite: "parses_url (''sqlite:///'' @ s)"
  by (simp add: parses_url_def is_name_char_def)

subsection \<open>The imported module and the user loader\<close>

lemma Config_Inr:
  assumes "Config base_dir env w = (Inr C, w1)"
  shows "\<exists>mb bc. environ_get_int env ''LOG_MAX_BYTES'' (10 * 1024 * 1024) = Inr mb
           \<and> environ_get_int env ''LOG_BACKUP_COUNT'' 5 = Inr bc
           \<and> w1 = snd (alloc (ListObj (split CHR '','' (environ_get env ''CORS_ORIGINS''
                          ''http://localhost:5001,https://localhost:5001''))) w)"
  using assms by (auto simp: Config_def Let_def alloc_def split: sum.splits)

lemma config_Inr:
  assumes "config base_dir env w = (Inr cfg, w1)"
  shows "\<exists>C. Config base_dir env w = (Inr C, w1)
           \<and> cfg = [(''development'', DevelopmentConfig env C), (''production'', ProductionConfig env C),
                    (''testing'', TestingConfig C), (''default'', DevelopmentConfig env C)]"
  using assms by (auto simp: config_def Let_def split: prod.splits sum.splits)




lemma Config_Inr_attrs:
  assumes "Config base_dir env w = (Inr C, w1)"
  shows "getattr C ''CORS_ORIGINS'' = Some (ListRef (next_addr w))"
    and "getattr C ''SESSION_COOKIE_SECURE'' =
           Some (BoolV (lower (environ_get env ''SESSION_SECURE'' ''False'') = ''true''))"
    and "heap w1 = (heap w)(next_addr w \<mapsto> ListObj (split CHR '','' (environ_get env ''CORS_ORIGINS''
                          ''http://localhost:5001,https://localhost:5001'')))"
    and "next_addr w1 = Suc (next_addr w)"
  using assms by (auto simp: Config_def Let_def alloc_def getattr_def split: sum.splits)

lemma config_inherited:
  assumes "config base_dir env w = (Inr cfg, w1)"
      and "n \<in> {''development'', ''production'', ''testing'', ''default''}"
      and "k \<notin> {''DEBUG'', ''TESTING'', ''LOG_LEVEL'', ''LOG_JSON_FORMAT'', ''SQLALCHEMY_DATABASE_URI''}"
  shows "\<exists>C cls. Config base_dir env w = (Inr C, w1) \<and> map_of cfg n = Some cls
           \<and> getattr cls k = getattr C k"
proof -
  from config_Inr [OF assms(1)] obtain C where C: "Config base_dir env w = (Inr C, w1)"
    and cfg: "cfg = [(''development'', DevelopmentConfig env C), (''production'', ProductionConfig env C),
                    (''testing'', TestingConfig C), (''default'', DevelopmentConfig env C)]"
    by blast
  have "getattr (DevelopmentConfig env C) k = getattr C k"
       "getattr (ProductionConfig env C) k = getattr C k"
       "getattr (TestingConfig C) k = getattr C k"
    using assms(3)
    by (simp_all add: DevelopmentConfig_def ProductionConfig_def TestingConfig_def getattr_def)
  with C cfg assms(2) show ?thesis by auto
qed

lemma config_names:
  assumes "config base_dir env w = (Inr cfg, w1)"
  shows "map_of cfg n = None \<longleftrightarrow> n \<notin> {''development'', ''production'', ''testing'', ''default''}"
  using config_Inr [OF assms] by auto

lemma config_succeeds:
  assumes "environ_get_int env ''LOG_MAX_BYTES'' (10 * 1024 * 1024) = Inr mb"
      and "environ_get_int env ''LOG_BACKUP_COUNT'' 5 = Inr bc"
  shows "\<exists>cfg w1. config base_dir env w = (Inr cfg, w1)"
  using assms by (simp add: config_def Config_def Let_def alloc_def)

lemma upper_keys:
  "isupper ''SQLALCHEMY_DATABASE_URI''" "isupper ''LOG_LEVEL''" "isupper ''CORS_ORIGINS''"
  "isupper ''SESSION_COOKIE_SECURE''"
  by (simp_all add: isupper_def is_upper_char_def is_lower_char_def)

lemma lower_true: "lower ''true'' = ''true''" "lower ''False'' \<noteq> ''true''"
  by (simp_all add: lower_def lower_char_def)








lemma query_get_out_of_range:
  "n < - (2 ^ 63) \<or> 2 ^ 63 \<le> n \<Longrightarrow> query_get users n = Inl OverflowError"
  by (auto simp: query_get_def)

lemma profile_uri:
  assumes "config base_dir env w = (Inr cfg, w1)" and "map_of cfg n = Some cls"
  shows "getattr cls ''SQLALCHEMY_DATABASE_URI'' =
           Some (StrV (if n = ''testing'' then ''sqlite:///:memory:''
                       else environ_get env ''DATABASE_URL''
                              (''sqlite:///'' @ path_str (path_div (path_div base_dir ''data'') ''orb.db''))))"
proof -
  from config_Inr [OF assms(1)] obtain C where C: "Config base_dir env w = (Inr C, w1)"
    and cfg: "cfg = [(''development'', DevelopmentConfig env C), (''production'', ProductionConfig env C),
                    (''testing'', TestingConfig C), (''default'', DevelopmentConfig env C)]"
    by blast
  have u: "getattr C ''SQLALCHEMY_DATABASE_URI'' =
           Some (StrV (environ_get env ''DATABASE_URL''
                              (''sqlite:///'' @ path_str (path_div (path_div base_dir ''data'') ''orb.db''))))"
    using C by (auto simp: Config_def Let_def alloc_def getattr_def split: sum.splits)
  have "n \<in> {''development'', ''production'', ''testing'', ''default''}"
    using assms(2) cfg by (auto split: if_splits)
  then show ?thesis
    using assms(2) u unfolding cfg
    by (auto simp: DevelopmentConfig_def ProductionConfig_def TestingConfig_def getattr_def)
qed

lemma profile_succeeds:
  assumes "config base_dir env w0 = (Inr cfg, w1)" and "map_of cfg n = Some cls"
      and "n = ''testing'' \<or> env ''DATABASE_URL'' = None"
  shows "\<exists>ap w'. create_app dc cfg env' (Some n) w = (Inr ap, w')"
proof -
  note u = profile_uri [OF assms(1,2)]
  have up: "isupper ''SQLALCHEMY_DATABASE_URI''" by (rule upper_keys(1))
  from assms(3) have "\<exists>uri. getattr cls ''SQLALCHEMY_DATABASE_URI'' = Some (StrV uri) \<and> parses_url uri"
  proof
    assume "n = ''testing''"
    with u show ?thesis using parses_sqlite [of "'':memory:''"] by simp
  next
    assume "env ''DATABASE_URL'' = None"
    with u show ?thesis
      using parses_sqlite by (cases "n = ''testing''") (auto simp: environ_get_def)
  qed
  then obtain uri where g: "getattr cls ''SQLALCHEMY_DATABASE_URI'' = Some (StrV uri)" and p: "parses_url uri"
    by blast
  from create_app_succeeds [OF assms(2) from_object_upper [OF up g] p] show ?thesis by blast
qed

lemma ex_config:
  "\<exists>cfg w1. config ex_base no_env ex_world = (Inr cfg, w1)"
  by (simp add: config_def Config_def Let_def alloc_def environ_get_int_def no_env_def)


lemma ex_app:
  assumes "n \<in> {''development'', ''production'', ''testing'', ''default''}"
  shows "\<exists>cfg w1 cls ap w2. config ex_base no_env ex_world = (Inr cfg, w1)
           \<and> map_of cfg n = Some cls
           \<and> create_app ex_defaults cfg no_env (Some n) w1 = (Inr ap, w2)"
proof -
  obtain cfg w1 where c: "config ex_base no_env ex_world = (Inr cfg, w1)"
    using ex_config by blast
  from config_names [OF c, of n] assms obtain cls where m: "map_of cfg n = Some cls" by auto
  have "no_env ''DATABASE_URL'' = None" by (simp add: no_env_def)
  then have "n = ''testing'' \<or> no_env ''DATABASE_URL'' = None" ..
  from profile_succeeds [OF c m this, of ex_defaults no_env w1] obtain ap w2
    where "create_app ex_defaults cfg no_env (Some n) w1 = (Inr ap, w2)" by blast
  with c m show ?thesis by (intro exI conjI)
qed

subsection \<open>Two calls of the factory\<close>

lemma config_class_cors:
  assumes "config base_dir env w = (Inr cfg, w1)" and "map_of cfg n = Some cls"
  shows "getattr cls ''CORS_ORIGINS'' = Some (ListRef (next_addr w))"
proof -
  have n: "n \<in> {''development'', ''production'', ''testing'', ''default''}"
    using config_names [OF assms(1), of n] assms(2) by auto
  from config_inherited [OF assms(1) n, of "''CORS_ORIGINS''"] obtain C cls'
    where C: "Config base_dir env w = (Inr C, w1)" and "map_of cfg n = Some cls'"
      and "getattr cls' ''CORS_ORIGINS'' = getattr C ''CORS_ORIGINS''" by auto
  with assms(2) Config_Inr_attrs(1) [OF C] show ?thesis by simp
qed

lemma two_apps_heap:
  assumes "config base_dir env0 w0 = (Inr cfg, w1)"
      and "create_app dc cfg env nm w1 = (Inr ap1, w2)"
      and "create_app dc cfg env' nm' w2 = (Inr ap2, w3)"
  shows "\<exists>d1 d2. config_ref ap1 \<noteq> config_ref ap2
           \<and> config_ref ap1 \<noteq> next_addr w0 \<and> config_ref ap2 \<noteq> next_addr w0
           \<and> heap w3 (next_addr w0) = Some (ListObj (split CHR '','' (environ_get env0 ''CORS_ORIGINS''
                          ''http://localhost:5001,https://localhost:5001'')))
           \<and> heap w3 (config_ref ap1) = Some (DictObj d1)
           \<and> heap w3 (config_ref ap2) = Some (DictObj d2)
           \<and> d1 ''CORS_ORIGINS'' = Some (ListRef (next_addr w0))
           \<and> d2 ''CORS_ORIGINS'' = Some (ListRef (next_addr w0))"
proof -
  from config_Inr [OF assms(1)] obtain C where C: "Config base_dir env0 w0 = (Inr C, w1)" by blast
  note at = Config_Inr_attrs [OF C]
  from create_app_Inr [OF assms(2)] obtain n1 cls1 where m1: "map_of cfg n1 = Some cls1"
    and a1: "create_app dc cfg env (Some n1) w1 = (Inr ap1, w2)" by blast
  from create_app_Inr [OF assms(3)] obtain n2 cls2 where m2: "map_of cfg n2 = Some cls2"
    and a2: "create_app dc cfg env' (Some n2) w2 = (Inr ap2, w3)" by blast
  note r1 = create_app_result(1,2,3) [OF a1 m1]
  note r2 = create_app_result(1,2,3) [OF a2 m2]
  let ?d1 = "sqlalchemy_settings (Suc (next_addr w1)) (Suc (Suc (next_addr w1))) (from_object cls1 dc)"
  let ?d2 = "sqlalchemy_settings (Suc (next_addr w2)) (Suc (Suc (next_addr w2))) (from_object cls2 dc)"
  have c1: "?d1 ''CORS_ORIGINS'' = Some (ListRef (next_addr w0))"
    using from_object_upper [OF upper_keys(3) config_class_cors [OF assms(1) m1], of dc]
    by (simp add: sqlalchemy_settings_keeps)
  have c2: "?d2 ''CORS_ORIGINS'' = Some (ListRef (next_addr w0))"
    using from_object_upper [OF upper_keys(3) config_class_cors [OF assms(1) m2], of dc]
    by (simp add: sqlalchemy_settings_keeps)
  have 1: "config_ref ap1 \<noteq> config_ref ap2" using r1 r2 by simp
  have 2: "config_ref ap1 \<noteq> next_addr w0" "config_ref ap2 \<noteq> next_addr w0"
    using r1 r2 at(4) by simp_all
  have 3: "heap w3 (next_addr w0) = Some (ListObj (split CHR '','' (environ_get env0 ''CORS_ORIGINS''
                          ''http://localhost:5001,https://localhost:5001'')))"
    using r1 r2 at(3,4) by simp
  have 4: "heap w3 (config_ref ap1) = Some (DictObj ?d1)" using r1 r2 by simp
  have 5: "heap w3 (config_ref ap2) = Some (DictObj ?d2)" using r1 r2 by simp
  from 1 2 3 4 5 c1 c2 show ?thesis by (intro exI conjI)
qed

lemma two_apps_shared_list:
  assumes "config base_dir env0 w0 = (Inr cfg, w1)"
      and "create_app dc cfg env nm w1 = (Inr ap1, w2)"
      and "create_app dc cfg env' nm' w2 = (Inr ap2, w3)"
  shows "app_config w3 ap1 ''CORS_ORIGINS'' = Some (ListRef (next_addr w0))"
    and "app_config w3 ap2 ''CORS_ORIGINS'' = Some (ListRef (next_addr w0))"
    and "setting_items w3 ap2 ''CORS_ORIGINS'' =
           Some (split CHR '','' (environ_get env0 ''CORS_ORIGINS''
                          ''http://localhost:5001,https://localhost:5001''))"
    and "setting_items (append_setting w3 ap1 ''CORS_ORIGINS'' x) ap2 ''CORS_ORIGINS'' =
           Some (split CHR '','' (environ_get env0 ''CORS_ORIGINS''
                          ''http://localhost:5001,https://localhost:5001'') @ [x])"
proof -
  from two_apps_heap [OF assms] obtain d1 d2
    where n: "config_ref ap1 \<noteq> config_ref ap2"
             "config_ref ap1 \<noteq> next_addr w0" "config_ref ap2 \<noteq> next_addr w0"
      and l: "heap w3 (next_addr w0) = Some (ListObj (split CHR '','' (environ_get env0 ''CORS_ORIGINS''
                          ''http://localhost:5001,https://localhost:5001'')))"
      and h: "heap w3 (config_ref ap1) = Some (DictObj d1)"
             "heap w3 (config_ref ap2) = Some (DictObj d2)"
      and d: "d1 ''CORS_ORIGINS'' = Some (ListRef (next_addr w0))"
             "d2 ''CORS_ORIGINS'' = Some (ListRef (next_addr w0))"
    by blast
  show g1: "app_config w3 ap1 ''CORS_ORIGINS'' = Some (ListRef (next_addr w0))"
    by (simp add: app_config_def dict_get_def h d)
  show g2: "app_config w3 ap2 ''CORS_ORIGINS'' = Some (ListRef (next_addr w0))"
    by (simp add: app_config_def dict_get_def h d)
  show "setting_items w3 ap2 ''CORS_ORIGINS'' =
           Some (split CHR '','' (environ_get env0 ''CORS_ORIGINS''
                          ''http://localhost:5001,https://localhost:5001''))"
    by (simp add: setting_items_def g2 list_items_def l)
  have w: "append_setting w3 ap1 ''CORS_ORIGINS'' x = list_append (next_addr w0) x w3"
    by (simp add: append_setting_def g1)
  show "setting_items (append_setting w3 ap1 ''CORS_ORIGINS'' x) ap2 ''CORS_ORIGINS'' =
           Some (split CHR '','' (environ_get env0 ''CORS_ORIGINS''
                          ''http://localhost:5001,https://localhost:5001'') @ [x])"
    unfolding w using n
    by (simp add: setting_items_def app_config_def dict_get_def list_append_def list_items_def l h d)
qed

lemma two_apps_setitem:
  assumes "config base_dir env0 w0 = (Inr cfg, w1)"
      and "create_app dc cfg env nm w1 = (Inr ap1, w2)"
      and "create_app dc cfg env' nm' w2 = (Inr ap2, w3)"
  shows "app_config (dict_setitem (config_ref ap1) k v w3) ap2 k' = app_config w3 ap2 k'"
    and "app_config (dict_setitem (config_ref ap2) k v w3) ap1 k' = app_config w3 ap1 k'"
    and "app_config (dict_setitem (config_ref ap1) k v w3) ap1 k = Some v"
    and "app_config (dict_setitem (config_ref ap2) k v w3) ap2 k = Some v"
proof -
  from two_apps_heap [OF assms] obtain d1 d2
    where n: "config_ref ap1 \<noteq> config_ref ap2"
      and h: "heap w3 (config_ref ap1) = Some (DictObj d1)"
             "heap w3 (config_ref ap2) = Some (DictObj d2)"
    by blast
  show "app_config (dict_setitem (config_ref ap1) k v w3) ap2 k' = app_config w3 ap2 k'"
    using n by (simp add: app_config_def dict_get_def dict_setitem_def dict_update_def h)
  show "app_config (dict_setitem (config_ref ap2) k v w3) ap1 k' = app_config w3 ap1 k'"
    using n by (simp add: app_config_def dict_get_def dict_setitem_def dict_update_def h)
  show "app_config (dict_setitem (config_ref ap1) k v w3) ap1 k = Some v"
    by (simp add: app_config_def dict_get_def dict_setitem_def dict_update_def h)
  show "app_config (dict_setitem (config_ref ap2) k v w3) ap2 k = Some v"
    by (simp add: app_config_def dict_get_def dict_setitem_def dict_update_def h)
qed

lemma ex_two_apps:
  "\<exists>cfg w1 ap1 w2 ap2 w3. config ex_base no_env ex_world = (Inr cfg, w1)
     \<and> create_app ex_defaults cfg no_env None w1 = (Inr ap1, w2)
     \<and> create_app ex_defaults cfg no_env None w2 = (Inr ap2, w3)
     \<and> ex_first = (Inr ap1, w2) \<and> ex_second = (Inr ap2, w3)"
proof -
  obtain cfg w1 where c: "config ex_base no_env ex_world = (Inr cfg, w1)"
    using ex_config by blast
  from config_Inr [OF c] obtain cls where m: "map_of cfg ''development'' = Some cls" by auto
  have r: "create_app ex_defaults cfg no_env None w = create_app ex_defaults cfg no_env (Some ''development'') w" for w
    by (simp add: create_app_resolve environ_get_def no_env_def)
  have u: "''development'' = ''testing'' \<or> no_env ''DATABASE_URL'' = None"
    by (simp add: no_env_def)
  from profile_succeeds [OF c m u, of ex_defaults no_env w1] obtain ap1 w2
    where a1: "create_app ex_defaults cfg no_env None w1 = (Inr ap1, w2)" unfolding r by blast
  from profile_succeeds [OF c m u, of ex_defaults no_env w2] obtain ap2 w3
    where a2: "create_app ex_defaults cfg no_env None w2 = (Inr ap2, w3)" unfolding r by blast
  have f: "ex_first = (Inr ap1, w2)" by (simp add: ex_first_def ex_imported_def c a1)
  have s: "ex_second = (Inr ap2, w3)" by (simp add: ex_second_def ex_imported_def c f a2)
  from c a1 a2 f s show ?thesis by (intro exI conjI)
qed

lemma ex_default_origins:
  "split CHR '','' (environ_get no_env ''CORS_ORIGINS'' ''http://localhost:5001,https://localhost:5001'')
     = [''http://localhost:5001'', ''https://localhost:5001'']"
  by (simp add: environ_get_def no_env_def)

section \<open>The claims\<close>

subsection \<open>C1: the user loader\<close>




subsection \<open>C2: the testing profile\<close>

text \<open>
  C2. Whenever the module imports, it also imports with \<open>DATABASE_URL\<close> and \<open>LOG_LEVEL\<close>
  set to anything or unset, and then the testing class, and an application made from it,
  has the database URI \<open>sqlite:///:memory:\<close> and the log level \<open>WARNING\<close>.
\<close>

theorem testing_profile_ignores_environment:
  assumes "config base_dir env w0 = (Inr cfg, w1)"
  shows "\<exists>cfg' w1' cls ap w'.
           config base_dir (env(''DATABASE_URL'' := d, ''LOG_LEVEL'' := l)) w0 = (Inr cfg', w1')
         \<and> map_of cfg' ''testing'' = Some cls
         \<and> getattr cls ''SQLALCHEMY_DATABASE_URI'' = Some (StrV ''sqlite:///:memory:'')
         \<and> getattr cls ''LOG_LEVEL'' = Some (StrV ''WARNING'')
         \<and> create_app dc cfg' env' (Some ''testing'') w = (Inr ap, w')
         \<and> app_config w' ap ''SQLALCHEMY_DATABASE_URI'' = Some (StrV ''sqlite:///:memory:'')
         \<and> app_config w' ap ''LOG_LEVEL'' = Some (StrV ''WARNING'')"
proof -
  let ?env = "env(''DATABASE_URL'' := d, ''LOG_LEVEL'' := l)"
  from config_Inr [OF assms] obtain C where "Config base_dir env w0 = (Inr C, w1)" by blast
  from Config_Inr [OF this] obtain mb bc
    where "environ_get_int env ''LOG_MAX_BYTES'' (10 * 1024 * 1024) = Inr mb"
      and "environ_get_int env ''LOG_BACKUP_COUNT'' 5 = Inr bc" by blast
  then have "environ_get_int ?env ''LOG_MAX_BYTES'' (10 * 1024 * 1024) = Inr mb"
    and "environ_get_int ?env ''LOG_BACKUP_COUNT'' 5 = Inr bc"
    by (simp_all add: environ_get_int_def)
  from config_succeeds [OF this] obtain cfg' w1'
    where c': "config base_dir ?env w0 = (Inr cfg', w1')" by blast
  from config_Inr [OF c'] obtain C' where
    t: "map_of cfg' ''testing'' = Some (TestingConfig C')" by auto
  have g: "getattr (TestingConfig C') ''SQLALCHEMY_DATABASE_URI'' = Some (StrV ''sqlite:///:memory:'')"
          "getattr (TestingConfig C') ''LOG_LEVEL'' = Some (StrV ''WARNING'')"
    by (simp_all add: TestingConfig_def getattr_def)
  have "''testing'' = ''testing'' \<or> ?env ''DATABASE_URL'' = None" by simp
  from profile_succeeds [OF c' t this, of dc env' w] obtain ap w'
    where a: "create_app dc cfg' env' (Some ''testing'') w = (Inr ap, w')" by blast
  note k = create_app_class_key [OF a t upper_keys(1) g(1)]
           create_app_class_key [OF a t upper_keys(2) g(2)]
  from c' t g a k show ?thesis by (intro exI conjI)
qed

theorem testing_profile_ignores_environment_witness:
  "\<exists>cfg w1. config ex_base no_env ex_world = (Inr cfg, w1)
     \<and> (\<exists>cfg' w1' cls ap w'.
           config ex_base (no_env(''DATABASE_URL'' := Some ''postgresql://db/orb'', ''LOG_LEVEL'' := Some ''DEBUG''))
             ex_world = (Inr cfg', w1')
         \<and> map_of cfg' ''testing'' = Some cls
         \<and> getattr cls ''SQLALCHEMY_DATABASE_URI'' = Some (StrV ''sqlite:///:memory:'')
         \<and> getattr cls ''LOG_LEVEL'' = Some (StrV ''WARNING'')
         \<and> create_app ex_defaults cfg' no_env (Some ''testing'') w1 = (Inr ap, w')
         \<and> app_config w' ap ''SQLALCHEMY_DATABASE_URI'' = Some (StrV ''sqlite:///:memory:'')
         \<and> app_config w' ap ''LOG_LEVEL'' = Some (StrV ''WARNING''))"
proof -
  obtain cfg w1 where c: "config ex_base no_env ex_world = (Inr cfg, w1)"
    using ex_config by blast
  note t = testing_profile_ignores_environment [OF c, of "Some ''postgresql://db/orb''" "Some ''DEBUG''"
      ex_defaults no_env w1]
  show ?thesis by (rule exI [of _ cfg], rule exI [of _ w1], rule conjI [OF c t])
qed

subsection \<open>C5: the secure-cookie flag\<close>

text \<open>
  C5. With \<open>SESSION_SECURE\<close> set to \<open>true\<close>, each of the four profiles has
  \<open>SESSION_COOKIE_SECURE\<close> true; with the variable unset, false. Every application the
  factory returns for the profile has the flag of its class.
\<close>

theorem session_secure_flag:
  assumes "config base_dir env w0 = (Inr cfg, w1)"
      and "n \<in> {''development'', ''production'', ''testing'', ''default''}"
  shows "\<exists>cls. map_of cfg n = Some cls
         \<and> (env ''SESSION_SECURE'' = Some ''true'' \<longrightarrow>
               getattr cls ''SESSION_COOKIE_SECURE'' = Some (BoolV True))
         \<and> (env ''SESSION_SECURE'' = None \<longrightarrow>
               getattr cls ''SESSION_COOKIE_SECURE'' = Some (BoolV False))
         \<and> (\<forall>dc env' w ap w'. create_app dc cfg env' (Some n) w = (Inr ap, w') \<longrightarrow>
               app_config w' ap ''SESSION_COOKIE_SECURE'' = getattr cls ''SESSION_COOKIE_SECURE'')"
proof -
  from config_inherited [OF assms, of "''SESSION_COOKIE_SECURE''"] obtain C cls
    where C: "Config base_dir env w0 = (Inr C, w1)" and m: "map_of cfg n = Some cls"
      and g: "getattr cls ''SESSION_COOKIE_SECURE'' = getattr C ''SESSION_COOKIE_SECURE''"
    by auto
  note v = Config_Inr_attrs(2) [OF C]
  have 1: "env ''SESSION_SECURE'' = Some ''true'' \<longrightarrow>
          getattr cls ''SESSION_COOKIE_SECURE'' = Some (BoolV True)"
    using g v by (simp add: environ_get_def lower_true)
  have 2: "env ''SESSION_SECURE'' = None \<longrightarrow>
          getattr cls ''SESSION_COOKIE_SECURE'' = Some (BoolV False)"
    using g v by (simp add: environ_get_def lower_true)
  have 3: "\<forall>dc env' w ap w'. create_app dc cfg env' (Some n) w = (Inr ap, w') \<longrightarrow>
               app_config w' ap ''SESSION_COOKIE_SECURE'' = getattr cls ''SESSION_COOKIE_SECURE''"
    using create_app_class_key [OF _ m upper_keys(4)] g v by simp
  from m 1 2 3 show ?thesis by (intro exI conjI)
qed

theorem session_secure_flag_witness:
  "(\<exists>cfg w1 cls ap w'.
      config ex_base [''SESSION_SECURE'' \<mapsto> ''true''] ex_world = (Inr cfg, w1)
    \<and> ''production'' \<in> {''development'', ''production'', ''testing'', ''default''}
    \<and> [''SESSION_SECURE'' \<mapsto> ''true''] ''SESSION_SECURE'' = Some ''true''
    \<and> map_of cfg ''production'' = Some cls
    \<and> create_app ex_defaults cfg no_env (Some ''production'') w1 = (Inr ap, w')
    \<and> getattr cls ''SESSION_COOKIE_SECURE'' = Some (BoolV True)
    \<and> app_config w' ap ''SESSION_COOKIE_SECURE'' = Some (BoolV True))
   \<and> (\<exists>cfg w1 cls ap w'.
      config ex_base no_env ex_world = (Inr cfg, w1)
    \<and> no_env ''SESSION_SECURE'' = None
    \<and> map_of cfg ''production'' = Some cls
    \<and> create_app ex_defaults cfg no_env (Some ''production'') w1 = (Inr ap, w')
    \<and> getattr cls ''SESSION_COOKIE_SECURE'' = Some (BoolV False)
    \<and> app_config w' ap ''SESSION_COOKIE_SECURE'' = Some (BoolV False))"
proof -
  let ?env = "[''SESSION_SECURE'' \<mapsto> ''true'']"
  have n: "''production'' \<in> {''development'', ''production'', ''testing'', ''default''}" by simp
  have "environ_get_int ?env ''LOG_MAX_BYTES'' (10 * 1024 * 1024) = Inr 10485760"
    and "environ_get_int ?env ''LOG_BACKUP_COUNT'' 5 = Inr 5"
    by (simp_all add: environ_get_int_def)
  from config_succeeds [OF this, of ex_base ex_world]
  obtain cfg w1 where c: "config ex_base ?env ex_world = (Inr cfg, w1)" by blast
  have e: "?env ''SESSION_SECURE'' = Some ''true''" by simp
  from session_secure_flag [OF c n] e obtain cls where m: "map_of cfg ''production'' = Some cls"
    and g: "getattr cls ''SESSION_COOKIE_SECURE'' = Some (BoolV True)"
    and k: "\<forall>dc env' w ap w'. create_app dc cfg env' (Some ''production'') w = (Inr ap, w') \<longrightarrow>
               app_config w' ap ''SESSION_COOKIE_SECURE'' = getattr cls ''SESSION_COOKIE_SECURE''"
    by blast
  have "''production'' = ''testing'' \<or> ?env ''DATABASE_URL'' = None" by simp
  from profile_succeeds [OF c m this, of ex_defaults no_env w1] obtain ap w'
    where a: "create_app ex_defaults cfg no_env (Some ''production'') w1 = (Inr ap, w')" by blast
  from k a g have s: "app_config w' ap ''SESSION_COOKIE_SECURE'' = Some (BoolV True)" by simp
  obtain cfg2 w12 where c2: "config ex_base no_env ex_world = (Inr cfg2, w12)"
    using ex_config by blast
  have e2: "no_env ''SESSION_SECURE'' = None" by (simp add: no_env_def)
  from session_secure_flag [OF c2 n] e2 obtain cls2 where m2: "map_of cfg2 ''production'' = Some cls2"
    and g2: "getattr cls2 ''SESSION_COOKIE_SECURE'' = Some (BoolV False)"
    and k2: "\<forall>dc env' w ap w'. create_app dc cfg2 env' (Some ''production'') w = (Inr ap, w') \<longrightarrow>
               app_config w' ap ''SESSION_COOKIE_SECURE'' = getattr cls2 ''SESSION_COOKIE_SECURE''"
    by blast
  have "''production'' = ''testing'' \<or> no_env ''DATABASE_URL'' = None" by (simp add: no_env_def)
  from profile_succeeds [OF c2 m2 this, of ex_defaults no_env w12] obtain ap2 w2'
    where a2: "create_app ex_defaults cfg2 no_env (Some ''production'') w12 = (Inr ap2, w2')" by blast
  from k2 a2 g2 have s2: "app_config w2' ap2 ''SESSION_COOKIE_SECURE'' = Some (BoolV False)" by simp
  have A: "\<exists>cfg w1 cls ap w'.
      config ex_base [''SESSION_SECURE'' \<mapsto> ''true''] ex_world = (Inr cfg, w1)
    \<and> ''production'' \<in> {''development'', ''production'', ''testing'', ''default''}
    \<and> [''SESSION_SECURE'' \<mapsto> ''true''] ''SESSION_SECURE'' = Some ''true''
    \<and> map_of cfg ''production'' = Some cls
    \<and> create_app ex_defaults cfg no_env (Some ''production'') w1 = (Inr ap, w')
    \<and> getattr cls ''SESSION_COOKIE_SECURE'' = Some (BoolV True)
    \<and> app_config w' ap ''SESSION_COOKIE_SECURE'' = Some (BoolV True)"
    using c n e m a g s by (intro exI conjI)
  have B: "\<exists>cfg w1 cls ap w'.
      config ex_base no_env ex_world = (Inr cfg, w1)
    \<and> no_env ''SESSION_SECURE'' = None
    \<and> map_of cfg ''production'' = Some cls
    \<and> create_app ex_defaults cfg no_env (Some ''production'') w1 = (Inr ap, w')
    \<and> getattr cls ''SESSION_COOKIE_SECURE'' = Some (BoolV False)
    \<and> app_config w' ap ''SESSION_COOKIE_SECURE'' = Some (BoolV False)"
    using c2 e2 m2 a2 g2 s2 by (intro exI conjI)
  from A B show ?thesis by (rule conjI)
qed

subsection \<open>C6: the allowed origins\<close>

text \<open>
  C6. With \<open>CORS_ORIGINS\<close> set to \<open>s\<close>, the \<open>CORS_ORIGINS\<close> value of each profile is the list
  of the pieces of \<open>s\<close> between its commas; for \<open>http://a.com,http://b.com\<close> these are
  \<open>http://a.com\<close> and \<open>http://b.com\<close>, in that order. Every application the factory returns
  for the profile holds that list.
\<close>

theorem cors_origins_comma_split:
  assumes "config base_dir env w0 = (Inr cfg, w1)"
      and "env ''CORS_ORIGINS'' = Some s"
      and "n \<in> {''development'', ''production'', ''testing'', ''default''}"
  shows "\<exists>cls a. map_of cfg n = Some cls
         \<and> getattr cls ''CORS_ORIGINS'' = Some (ListRef a)
         \<and> list_items w1 (ListRef a) = Some (split CHR '','' s)
         \<and> (s = ''http://a.com,http://b.com'' \<longrightarrow>
               list_items w1 (ListRef a) = Some [''http://a.com'', ''http://b.com''])
         \<and> (\<forall>dc env' ap w2. create_app dc cfg env' (Some n) w1 = (Inr ap, w2) \<longrightarrow>
               app_config w2 ap ''CORS_ORIGINS'' = Some (ListRef a)
             \<and> setting_items w2 ap ''CORS_ORIGINS'' = Some (split CHR '','' s))"
proof -
  from config_inherited [OF assms(1,3), of "''CORS_ORIGINS''"] obtain C cls
    where C: "Config base_dir env w0 = (Inr C, w1)" and m: "map_of cfg n = Some cls"
      and g: "getattr cls ''CORS_ORIGINS'' = getattr C ''CORS_ORIGINS''"
    by auto
  note at = Config_Inr_attrs [OF C]
  have g': "getattr cls ''CORS_ORIGINS'' = Some (ListRef (next_addr w0))"
    using g at(1) by simp
  have h1: "heap w1 (next_addr w0) = Some (ListObj (split CHR '','' s))"
    using at(3) assms(2) by (simp add: environ_get_def)
  then have l1: "list_items w1 (ListRef (next_addr w0)) = Some (split CHR '','' s)"
    by (simp add: list_items_def)
  have l2: "s = ''http://a.com,http://b.com'' \<longrightarrow>
               list_items w1 (ListRef (next_addr w0)) = Some [''http://a.com'', ''http://b.com'']"
    using l1 by simp
  have 3: "\<forall>dc env' ap w2. create_app dc cfg env' (Some n) w1 = (Inr ap, w2) \<longrightarrow>
               app_config w2 ap ''CORS_ORIGINS'' = Some (ListRef (next_addr w0))
             \<and> setting_items w2 ap ''CORS_ORIGINS'' = Some (split CHR '','' s)"
  proof (intro allI impI)
    fix dc env' ap w2
    assume a: "create_app dc cfg env' (Some n) w1 = (Inr ap, w2)"
    note k = create_app_class_key [OF a m upper_keys(3) g']
    have "heap w2 (next_addr w0) = Some (ListObj (split CHR '','' s))"
      using create_app_result(2) [OF a m] h1 at(4) by simp
    with k show "app_config w2 ap ''CORS_ORIGINS'' = Some (ListRef (next_addr w0))
             \<and> setting_items w2 ap ''CORS_ORIGINS'' = Some (split CHR '','' s)"
      by (simp add: setting_items_def list_items_def)
  qed
  from m g' l1 l2 3 show ?thesis by (intro exI conjI)
qed

theorem cors_origins_comma_split_witness:
  "\<exists>cfg w1 cls a ap w2.
      config ex_base [''CORS_ORIGINS'' \<mapsto> ''http://a.com,http://b.com''] ex_world = (Inr cfg, w1)
    \<and> [''CORS_ORIGINS'' \<mapsto> ''http://a.com,http://b.com''] ''CORS_ORIGINS'' = Some ''http://a.com,http://b.com''
    \<and> ''development'' \<in> {''development'', ''production'', ''testing'', ''default''}
    \<and> map_of cfg ''development'' = Some cls
    \<and> getattr cls ''CORS_ORIGINS'' = Some (ListRef a)
    \<and> list_items w1 (ListRef a) = Some [''http://a.com'', ''http://b.com'']
    \<and> create_app ex_defaults cfg no_env (Some ''development'') w1 = (Inr ap, w2)
    \<and> setting_items w2 ap ''CORS_ORIGINS'' = Some [''http://a.com'', ''http://b.com'']"
proof -
  let ?env = "[''CORS_ORIGINS'' \<mapsto> ''http://a.com,http://b.com'']"
  have "environ_get_int ?env ''LOG_MAX_BYTES'' (10 * 1024 * 1024) = Inr 10485760"
    and "environ_get_int ?env ''LOG_BACKUP_COUNT'' 5 = Inr 5"
    by (simp_all add: environ_get_int_def)
  from config_succeeds [OF this, of ex_base ex_world]
  obtain cfg w1 where c: "config ex_base ?env ex_world = (Inr cfg, w1)" by blast
  have e: "?env ''CORS_ORIGINS'' = Some ''http://a.com,http://b.com''" by simp
  have n: "''development'' \<in> {''development'', ''production'', ''testing'', ''default''}" by simp
  have sp: "split CHR '','' ''http://a.com,http://b.com'' = [''http://a.com'', ''http://b.com'']"
    by simp
  from cors_origins_comma_split [OF c e n] obtain cls a
    where m: "map_of cfg ''development'' = Some cls"
      and g: "getattr cls ''CORS_ORIGINS'' = Some (ListRef a)"
      and l: "list_items w1 (ListRef a) = Some [''http://a.com'', ''http://b.com'']"
      and k: "\<forall>dc env' ap w2. create_app dc cfg env' (Some ''development'') w1 = (Inr ap, w2) \<longrightarrow>
               app_config w2 ap ''CORS_ORIGINS'' = Some (ListRef a)
             \<and> setting_items w2 ap ''CORS_ORIGINS'' = Some (split CHR '','' ''http://a.com,http://b.com'')"
    by blast
  have "''development'' = ''testing'' \<or> ?env ''DATABASE_URL'' = None" by simp
  from profile_succeeds [OF c m this, of ex_defaults no_env w1] obtain ap w2
    where a: "create_app ex_defaults cfg no_env (Some ''development'') w1 = (Inr ap, w2)" by blast
  from k a have s: "setting_items w2 ap ''CORS_ORIGINS'' = Some [''http://a.com'', ''http://b.com'']"
    unfolding sp by blast
  from c e n m g l a s show ?thesis by (intro exI conjI)
qed

subsection \<open>C7: which profile the factory uses\<close>

text \<open>
  C7. Called without a name, the factory does what it does when called with the value of
  \<open>FLASK_ENV\<close>, or with \<open>development\<close> when that variable is unset. Called with a name, it
  uses the class stored under that name: an application it returns has every upper-case
  attribute of that class as a setting, and KeyError is raised exactly when no class is
  stored under the name.
\<close>

theorem profile_resolution:
  "(env ''FLASK_ENV'' = Some v \<longrightarrow>
      create_app dc cfg env None w = create_app dc cfg env (Some v) w)
   \<and> (env ''FLASK_ENV'' = None \<longrightarrow>
      create_app dc cfg env None w = create_app dc cfg env (Some ''development'') w)
   \<and> (map_of cfg n = Some cls \<and> create_app dc cfg env (Some n) w = (Inr ap, w')
        \<and> isupper k \<and> getattr cls k = Some x
      \<longrightarrow> app_config w' ap k = Some x)
   \<and> (map_of cfg n = Some cls \<longrightarrow> (\<forall>m. fst (create_app dc cfg env (Some n) w) \<noteq> Inl (KeyError m)))
   \<and> (map_of cfg n = None \<longrightarrow> fst (create_app dc cfg env (Some n) w) = Inl (KeyError n))"
proof -
  have 1: "env ''FLASK_ENV'' = Some v \<longrightarrow>
      create_app dc cfg env None w = create_app dc cfg env (Some v) w"
    by (simp add: create_app_resolve environ_get_def)
  have 2: "env ''FLASK_ENV'' = None \<longrightarrow>
      create_app dc cfg env None w = create_app dc cfg env (Some ''development'') w"
    by (simp add: create_app_resolve environ_get_def)
  have 3: "map_of cfg n = Some cls \<and> create_app dc cfg env (Some n) w = (Inr ap, w')
        \<and> isupper k \<and> getattr cls k = Some x
      \<longrightarrow> app_config w' ap k = Some x"
    using create_app_class_key [of dc cfg env n w ap w' cls k x] by blast
  have 4: "map_of cfg n = Some cls \<longrightarrow> (\<forall>m. fst (create_app dc cfg env (Some n) w) \<noteq> Inl (KeyError m))"
  proof (intro impI allI)
    fix m assume s: "map_of cfg n = Some cls"
    show "fst (create_app dc cfg env (Some n) w) \<noteq> Inl (KeyError m)"
    proof (cases "\<exists>uri. from_object cls dc ''SQLALCHEMY_DATABASE_URI'' = Some (StrV uri) \<and> parses_url uri")
      case True
      then obtain uri where "from_object cls dc ''SQLALCHEMY_DATABASE_URI'' = Some (StrV uri)"
        "parses_url uri" by blast
      from create_app_succeeds [OF s this] show ?thesis by simp
    next
      case False
      from create_app_fails [OF s this, where env = env and w = w] show ?thesis by auto
    qed
  qed
  have 5: "map_of cfg n = None \<longrightarrow> fst (create_app dc cfg env (Some n) w) = Inl (KeyError n)"
    by (simp add: create_app_None)
  from 1 2 3 4 5 show ?thesis by (intro conjI)
qed

theorem profile_resolution_witness:
  "\<exists>cfg w1 cls ap w'. config ex_base no_env ex_world = (Inr cfg, w1)
     \<and> [''FLASK_ENV'' \<mapsto> ''testing''] ''FLASK_ENV'' = Some ''testing''
     \<and> create_app ex_defaults cfg [''FLASK_ENV'' \<mapsto> ''testing''] None w1
         = create_app ex_defaults cfg [''FLASK_ENV'' \<mapsto> ''testing''] (Some ''testing'') w1
     \<and> no_env ''FLASK_ENV'' = None
     \<and> create_app ex_defaults cfg no_env None w1
         = create_app ex_defaults cfg no_env (Some ''development'') w1
     \<and> map_of cfg ''testing'' = Some cls
     \<and> create_app ex_defaults cfg no_env (Some ''testing'') w1 = (Inr ap, w')
     \<and> isupper ''LOG_LEVEL'' \<and> getattr cls ''LOG_LEVEL'' = Some (StrV ''WARNING'')
     \<and> app_config w' ap ''LOG_LEVEL'' = Some (StrV ''WARNING'')
     \<and> fst (create_app ex_defaults cfg no_env (Some ''testing'') w1) \<noteq> Inl (KeyError ''testing'')
     \<and> map_of cfg ''staging'' = None
     \<and> fst (create_app ex_defaults cfg no_env (Some ''staging'') w1) = Inl (KeyError ''staging'')"
proof -
  from ex_app [of "''testing''"] obtain cfg w1 cls ap w'
    where c: "config ex_base no_env ex_world = (Inr cfg, w1)"
      and t: "map_of cfg ''testing'' = Some cls"
      and a: "create_app ex_defaults cfg no_env (Some ''testing'') w1 = (Inr ap, w')"
    by auto
  from config_Inr [OF c] t have g: "getattr cls ''LOG_LEVEL'' = Some (StrV ''WARNING'')"
    by (auto simp: TestingConfig_def getattr_def)
  have u: "isupper ''LOG_LEVEL''" by (rule upper_keys(2))
  have s: "map_of cfg ''staging'' = None"
    using config_names [OF c, of "''staging''"] by simp
  have e1: "[''FLASK_ENV'' \<mapsto> ''testing''] ''FLASK_ENV'' = Some ''testing''" by simp
  have e2: "no_env ''FLASK_ENV'' = None" by (simp add: no_env_def)
  note p1 = profile_resolution [of "[''FLASK_ENV'' \<mapsto> ''testing'']" "''testing''" ex_defaults cfg w1]
  note p2 = profile_resolution [of no_env _ ex_defaults cfg w1 "''testing''" cls ap w'
      "''LOG_LEVEL''" "StrV ''WARNING''"]
  note p3 = profile_resolution [of no_env _ ex_defaults cfg w1 "''staging''"]
  note r1 = p1 [THEN conjunct1, THEN mp, OF e1]
  note r2 = p2 [THEN conjunct2, THEN conjunct1, THEN mp, OF e2]
  have r3: "app_config w' ap ''LOG_LEVEL'' = Some (StrV ''WARNING'')"
    using p2 [THEN conjunct2, THEN conjunct2, THEN conjunct1] t a u g by blast
  have r4: "fst (create_app ex_defaults cfg no_env (Some ''testing'') w1) \<noteq> Inl (KeyError ''testing'')"
    using p2 [THEN conjunct2, THEN conjunct2, THEN conjunct2, THEN conjunct1] t by blast
  note r5 = p3 [THEN conjunct2, THEN conjunct2, THEN conjunct2, THEN conjunct2, THEN mp, OF s]
  from c e1 r1 e2 r2 t a u g r3 r4 s r5 show ?thesis by (intro exI conjI)
qed

subsection \<open>C9: the default profile\<close>

text \<open>
  C9. The names \<open>default\<close> and \<open>development\<close> are bound to the same class, the factory
  called with either does the same, and an application it returns has every upper-case
  attribute of that class as a setting.
\<close>

theorem default_profile_is_development:
  assumes "config base_dir env0 w0 = (Inr cfg, w1)"
  shows "\<exists>cls. map_of cfg ''default'' = Some cls \<and> map_of cfg ''development'' = Some cls
         \<and> cls = DevelopmentConfig env0 (projr (fst (Config base_dir env0 w0)))
         \<and> (\<forall>dc env w. create_app dc cfg env (Some ''default'') w
                         = create_app dc cfg env (Some ''development'') w)
         \<and> (\<forall>dc env w ap w' k x.
               create_app dc cfg env (Some ''default'') w = (Inr ap, w')
               \<and> isupper k \<and> getattr cls k = Some x
             \<longrightarrow> app_config w' ap k = Some x)"
proof -
  from config_Inr [OF assms] obtain C where C: "Config base_dir env0 w0 = (Inr C, w1)"
    and d: "map_of cfg ''default'' = Some (DevelopmentConfig env0 C)"
           "map_of cfg ''development'' = Some (DevelopmentConfig env0 C)" by auto
  have e: "DevelopmentConfig env0 C = DevelopmentConfig env0 (projr (fst (Config base_dir env0 w0)))"
    using C by simp
  have 4: "\<forall>dc env w. create_app dc cfg env (Some ''default'') w
                         = create_app dc cfg env (Some ''development'') w"
    using create_app_same_class [OF d] by blast
  have 5: "\<forall>dc env w ap w' k x.
               create_app dc cfg env (Some ''default'') w = (Inr ap, w')
               \<and> isupper k \<and> getattr (DevelopmentConfig env0 C) k = Some x
             \<longrightarrow> app_config w' ap k = Some x"
    using create_app_class_key [OF _ d(1)] by blast
  from d e 4 5 show ?thesis by (intro exI conjI)
qed

theorem default_profile_is_development_witness:
  "\<exists>cfg w1 cls ap w'. config ex_base [''LOG_LEVEL'' \<mapsto> ''ERROR''] ex_world = (Inr cfg, w1)
     \<and> map_of cfg ''default'' = Some cls \<and> map_of cfg ''development'' = Some cls
     \<and> create_app ex_defaults cfg no_env (Some ''default'') w1 = (Inr ap, w')
     \<and> create_app ex_defaults cfg no_env (Some ''development'') w1 = (Inr ap, w')
     \<and> isupper ''LOG_LEVEL'' \<and> getattr cls ''LOG_LEVEL'' = Some (StrV ''ERROR'')
     \<and> app_config w' ap ''LOG_LEVEL'' = Some (StrV ''ERROR'')"
proof -
  let ?env = "[''LOG_LEVEL'' \<mapsto> ''ERROR'']"
  have "environ_get_int ?env ''LOG_MAX_BYTES'' (10 * 1024 * 1024) = Inr 10485760"
    and "environ_get_int ?env ''LOG_BACKUP_COUNT'' 5 = Inr 5"
    by (simp_all add: environ_get_int_def)
  from config_succeeds [OF this, of ex_base ex_world]
  obtain cfg w1 where c: "config ex_base ?env ex_world = (Inr cfg, w1)" by blast
  from default_profile_is_development [OF c] obtain cls
    where d: "map_of cfg ''default'' = Some cls" "map_of cfg ''development'' = Some cls"
      and cl: "cls = DevelopmentConfig ?env (projr (fst (Config ex_base ?env ex_world)))"
      and eq: "\<forall>dc env w. create_app dc cfg env (Some ''default'') w
                         = create_app dc cfg env (Some ''development'') w"
      and k: "\<forall>dc env w ap w' k x.
               create_app dc cfg env (Some ''default'') w = (Inr ap, w')
               \<and> isupper k \<and> getattr cls k = Some x
             \<longrightarrow> app_config w' ap k = Some x"
    by blast
  have "''default'' = ''testing'' \<or> ?env ''DATABASE_URL'' = None" by simp
  from profile_succeeds [OF c d(1) this, of ex_defaults no_env w1] obtain ap w'
    where a: "create_app ex_defaults cfg no_env (Some ''default'') w1 = (Inr ap, w')" by blast
  from eq a have a': "create_app ex_defaults cfg no_env (Some ''development'') w1 = (Inr ap, w')"
    by simp
  have u: "isupper ''LOG_LEVEL''" by (rule upper_keys(2))
  have g: "getattr cls ''LOG_LEVEL'' = Some (StrV ''ERROR'')"
    unfolding cl by (simp add: DevelopmentConfig_def getattr_def environ_get_def)
  from k a u g have r: "app_config w' ap ''LOG_LEVEL'' = Some (StrV ''ERROR'')" by blast
  from c d a a' u g r show ?thesis by (intro exI conjI)
qed

subsection \<open>C10: an unknown profile name\<close>

text \<open>
  C10. For a name other than the four profile names, given directly or through
  \<open>FLASK_ENV\<close>, the factory raises KeyError with no subsystem initialised and no table
  created.
\<close>

theorem unknown_profile_raises_KeyError:
  assumes "config base_dir env0 w0 = (Inr cfg, w1)"
      and "n \<notin> {''development'', ''production'', ''testing'', ''default''}"
  shows "fst (create_app dc cfg env (Some n) w) = Inl (KeyError n)
       \<and> initialized (snd (create_app dc cfg env (Some n) w)) = initialized w
       \<and> db_tables (snd (create_app dc cfg env (Some n) w)) = db_tables w
       \<and> (env ''FLASK_ENV'' = Some n \<longrightarrow>
            fst (create_app dc cfg env None w) = Inl (KeyError n)
          \<and> initialized (snd (create_app dc cfg env None w)) = initialized w
          \<and> db_tables (snd (create_app dc cfg env None w)) = db_tables w)"
proof -
  have m: "map_of cfg n = None"
    using config_names [OF assms(1)] assms(2) by blast
  show ?thesis
    by (simp add: create_app_None [OF m] create_app_resolve environ_get_def)
qed

theorem unknown_profile_raises_KeyError_witness:
  "\<exists>cfg w1. config ex_base no_env ex_world = (Inr cfg, w1)
     \<and> ''staging'' \<notin> {''development'', ''production'', ''testing'', ''default''}
     \<and> [''FLASK_ENV'' \<mapsto> ''staging''] ''FLASK_ENV'' = Some ''staging''
     \<and> fst (create_app ex_defaults cfg [''FLASK_ENV'' \<mapsto> ''staging''] (Some ''staging'') w1)
          = Inl (KeyError ''staging'')
     \<and> fst (create_app ex_defaults cfg [''FLASK_ENV'' \<mapsto> ''staging''] None w1)
          = Inl (KeyError ''staging'')
     \<and> initialized (snd (create_app ex_defaults cfg [''FLASK_ENV'' \<mapsto> ''staging''] None w1))
          = initialized w1"
proof -
  obtain cfg w1 where c: "config ex_base no_env ex_world = (Inr cfg, w1)"
    using ex_config by blast
  have n: "''staging'' \<notin> {''development'', ''production'', ''testing'', ''default''}" by simp
  have e: "[''FLASK_ENV'' \<mapsto> ''staging''] ''FLASK_ENV'' = Some ''staging''" by simp
  note r = unknown_profile_raises_KeyError [OF c n, of ex_defaults "[''FLASK_ENV'' \<mapsto> ''staging'']" w1]
  note r1 = r [THEN conjunct1]
  note rr = r [THEN conjunct2, THEN conjunct2, THEN conjunct2, THEN mp, OF e]
  note r2 = rr [THEN conjunct1]
  note r3 = rr [THEN conjunct2, THEN conjunct1]
  from c n e r1 r2 r3 show ?thesis by (intro exI conjI)
qed

subsection \<open>C4: no tables are created\<close>

lemma create_all_adds_tables:
  "db_tables (create_all models uri w) uri = db_tables w uri \<union> set models"
  by (simp add: create_all_def)

text \<open>
  C4. Whatever its arguments, the factory leaves the tables of every database as they
  were. When it returns an application, the migration subsystem is attached to it.
\<close>

theorem create_app_keeps_tables:
  "db_tables (snd (create_app dc cfg env nm w)) = db_tables w
   \<and> (create_app dc cfg env nm w = (Inr ap, w') \<longrightarrow>
        extensions ap = [''sqlalchemy'', ''migrate'']
      \<and> (Migration, config_ref ap) \<in> set (initialized w'))"
proof -
  have 1: "db_tables (snd (create_app dc cfg env nm w)) = db_tables w"
    by (rule create_app_tables)
  have 2: "create_app dc cfg env nm w = (Inr ap, w') \<longrightarrow>
        extensions ap = [''sqlalchemy'', ''migrate'']
      \<and> (Migration, config_ref ap) \<in> set (initialized w')"
  proof
    assume "create_app dc cfg env nm w = (Inr ap, w')"
    from create_app_Inr [OF this] obtain n cls where m: "map_of cfg n = Some cls"
      and a: "create_app dc cfg env (Some n) w = (Inr ap, w')" by blast
    from create_app_result(1,4,5) [OF a m]
    show "extensions ap = [''sqlalchemy'', ''migrate'']
      \<and> (Migration, config_ref ap) \<in> set (initialized w')" by simp
  qed
  from 1 2 show ?thesis by (rule conjI)
qed

theorem create_app_keeps_tables_witness:
  "\<exists>cfg w1 ap w'. config ex_base no_env ex_world = (Inr cfg, w1)
     \<and> create_app ex_defaults cfg no_env None w1 = (Inr ap, w')
     \<and> db_tables w' = db_tables w1
     \<and> extensions ap = [''sqlalchemy'', ''migrate'']
     \<and> (Migration, config_ref ap) \<in> set (initialized w')"
proof -
  from ex_app [of "''development''"] obtain cfg w1 ap w'
    where c: "config ex_base no_env ex_world = (Inr cfg, w1)"
      and "create_app ex_defaults cfg no_env (Some ''development'') w1 = (Inr ap, w')"
    by auto
  then have a: "create_app ex_defaults cfg no_env None w1 = (Inr ap, w')"
    by (simp add: create_app_resolve environ_get_def no_env_def)
  note t = create_app_keeps_tables [of ex_defaults cfg no_env None w1 ap w']
  have r1: "db_tables w' = db_tables w1" using t [THEN conjunct1] a by simp
  note r2 = t [THEN conjunct2, THEN mp, OF a]
  from c a r1 r2 [THEN conjunct1] r2 [THEN conjunct2] show ?thesis by (intro exI conjI)
qed

subsection \<open>C8: the routes\<close>

text \<open>
  C8. An application returned by the factory has, after the static-file rule of the
  framework, exactly the five page rules \<open>/\<close>, \<open>/soundings\<close>, \<open>/history\<close>, \<open>/fuel\<close> and
  \<open>/new-hitch\<close>, each rendering its template with no context and none requiring a login,
  and the API blueprint registered under \<open>/api\<close>.
\<close>

theorem page_routes_and_api_mount:
  assumes "create_app dc cfg env nm w = (Inr ap, w')"
  shows "url_map ap =
           [\<lparr>rule = ''/static/<path:filename>'', endpoint = ''static'', login_required = False,
              view_func = SendStaticFile\<rparr>,
            \<lparr>rule = ''/'', endpoint = ''dashboard'', login_required = False,
              view_func = RenderTemplate ''dashboard.html'' []\<rparr>,
            \<lparr>rule = ''/soundings'', endpoint = ''weekly_soundings'', login_required = False,
              view_func = RenderTemplate ''soundings.html'' []\<rparr>,
            \<lparr>rule = ''/history'', endpoint = ''history'', login_required = False,
              view_func = RenderTemplate ''history.html'' []\<rparr>,
            \<lparr>rule = ''/fuel'', endpoint = ''fuel_tickets'', login_required = False,
              view_func = RenderTemplate ''fuel.html'' []\<rparr>,
            \<lparr>rule = ''/new-hitch'', endpoint = ''new_hitch'', login_required = False,
              view_func = RenderTemplate ''new_hitch.html'' []\<rparr>]
       \<and> blueprints ap = [(''routes.api.api_bp'', ''/api'')]"
proof -
  from create_app_Inr [OF assms] obtain n cls where m: "map_of cfg n = Some cls"
    and a: "create_app dc cfg env (Some n) w = (Inr ap, w')" by blast
  from create_app_result(8,7) [OF a m] show ?thesis by (rule conjI)
qed

theorem page_routes_and_api_mount_witness:
  "\<exists>cfg w1 ap w'. config ex_base no_env ex_world = (Inr cfg, w1)
     \<and> create_app ex_defaults cfg no_env (Some ''production'') w1 = (Inr ap, w')
     \<and> map rule (url_map ap) =
          [''/static/<path:filename>'', ''/'', ''/soundings'', ''/history'', ''/fuel'', ''/new-hitch'']
     \<and> map view_func (url_map ap) =
          [SendStaticFile, RenderTemplate ''dashboard.html'' [], RenderTemplate ''soundings.html'' [],
           RenderTemplate ''history.html'' [], RenderTemplate ''fuel.html'' [],
           RenderTemplate ''new_hitch.html'' []]
     \<and> list_all (\<lambda>r. \<not> login_required r) (url_map ap)
     \<and> blueprints ap = [(''routes.api.api_bp'', ''/api'')]"
proof -
  from ex_app [of "''production''"] obtain cfg w1 ap w'
    where c: "config ex_base no_env ex_world = (Inr cfg, w1)"
      and a: "create_app ex_defaults cfg no_env (Some ''production'') w1 = (Inr ap, w')"
    by auto
  note t = page_routes_and_api_mount [OF a]
  have r1: "map rule (url_map ap) =
          [''/static/<path:filename>'', ''/'', ''/soundings'', ''/history'', ''/fuel'', ''/new-hitch'']"
    using t by simp
  have r2: "map view_func (url_map ap) =
          [SendStaticFile, RenderTemplate ''dashboard.html'' [], RenderTemplate ''soundings.html'' [],
           RenderTemplate ''history.html'' [], RenderTemplate ''fuel.html'' [],
           RenderTemplate ''new_hitch.html'' []]"
    using t by simp
  have r3: "list_all (\<lambda>r. \<not> login_required r) (url_map ap)" using t by simp
  note r4 = t [THEN conjunct2]
  from c a r1 r2 r3 r4 show ?thesis by (intro exI conjI)
qed

subsection \<open>C3: two applications\<close>

text \<open>
  Both applications of the example hold the one list that \<open>class Config\<close> built: an
  origin appended through the settings of the first is read through those of the second.
\<close>

theorem shared_origins_list_counterexample:
  "\<not> isl (fst ex_first) \<and> \<not> isl (fst ex_second)
   \<and> setting_items (snd ex_second) (projr (fst ex_second)) ''CORS_ORIGINS''
       = Some [''http://localhost:5001'', ''https://localhost:5001'']
   \<and> setting_items (append_setting (snd ex_second) (projr (fst ex_first)) ''CORS_ORIGINS'' ''http://evil.example'')
         (projr (fst ex_second)) ''CORS_ORIGINS''
       = Some [''http://localhost:5001'', ''https://localhost:5001'', ''http://evil.example'']"
proof -
  from ex_two_apps obtain cfg w1 ap1 w2 ap2 w3
    where c: "config ex_base no_env ex_world = (Inr cfg, w1)"
      and a1: "create_app ex_defaults cfg no_env None w1 = (Inr ap1, w2)"
      and a2: "create_app ex_defaults cfg no_env None w2 = (Inr ap2, w3)"
      and f: "ex_first = (Inr ap1, w2)" and s: "ex_second = (Inr ap2, w3)"
    by (elim exE conjE)
  note l = two_apps_shared_list(3,4) [OF c a1 a2, unfolded ex_default_origins]
  show ?thesis by (simp add: f s l)
qed

text \<open>
  C3, as the code has it. Two successive calls return applications with two different
  settings mappings: storing a value under a key of one changes that key there and leaves
  every key of the other as it was. The value of \<open>CORS_ORIGINS\<close> is the same list object
  in both, so that appending to it through one application shows through the other.
\<close>

theorem two_apps_settings:
  assumes "config base_dir env0 w0 = (Inr cfg, w1)"
      and "create_app dc cfg env nm w1 = (Inr ap1, w2)"
      and "create_app dc cfg env nm w2 = (Inr ap2, w3)"
  shows "config_ref ap1 \<noteq> config_ref ap2
       \<and> app_config (dict_setitem (config_ref ap1) k v w3) ap1 k = Some v
       \<and> app_config (dict_setitem (config_ref ap1) k v w3) ap2 k' = app_config w3 ap2 k'
       \<and> app_config (dict_setitem (config_ref ap2) k v w3) ap2 k = Some v
       \<and> app_config (dict_setitem (config_ref ap2) k v w3) ap1 k' = app_config w3 ap1 k'
       \<and> (\<exists>a xs. app_config w3 ap1 ''CORS_ORIGINS'' = Some (ListRef a)
             \<and> app_config w3 ap2 ''CORS_ORIGINS'' = Some (ListRef a)
             \<and> setting_items w3 ap2 ''CORS_ORIGINS'' = Some xs
             \<and> setting_items (append_setting w3 ap1 ''CORS_ORIGINS'' x) ap2 ''CORS_ORIGINS''
                 = Some (xs @ [x]))"
proof -
  from two_apps_heap [OF assms] have d: "config_ref ap1 \<noteq> config_ref ap2" by blast
  note s = two_apps_setitem [OF assms]
  note l = two_apps_shared_list [OF assms]
  show ?thesis
    by (intro conjI exI) (rule d s(3) s(1) s(4) s(2) l(1) l(2) l(3) l(4))+
qed

theorem two_apps_settings_witness:
  "\<exists>cfg w1 ap1 w2 ap2 w3. config ex_base no_env ex_world = (Inr cfg, w1)
     \<and> create_app ex_defaults cfg no_env None w1 = (Inr ap1, w2)
     \<and> create_app ex_defaults cfg no_env None w2 = (Inr ap2, w3)
     \<and> config_ref ap1 \<noteq> config_ref ap2
     \<and> app_config (dict_setitem (config_ref ap1) ''DEBUG'' (BoolV False) w3) ap1 ''DEBUG'' = Some (BoolV False)
     \<and> app_config (dict_setitem (config_ref ap1) ''DEBUG'' (BoolV False) w3) ap2 ''DEBUG''
         = app_config w3 ap2 ''DEBUG''"
proof -
  from ex_two_apps obtain cfg w1 ap1 w2 ap2 w3
    where c: "config ex_base no_env ex_world = (Inr cfg, w1)"
      and a1: "create_app ex_defaults cfg no_env None w1 = (Inr ap1, w2)"
      and a2: "create_app ex_defaults cfg no_env None w2 = (Inr ap2, w3)"
    by (elim exE conjE)
  note t = two_apps_settings [OF c a1 a2, of "''DEBUG''" "BoolV False" "''DEBUG''"]
  note t1 = t [THEN conjunct1]
  note t2 = t [THEN conjunct2, THEN conjunct1]
  note t3 = t [THEN conjunct2, THEN conjunct2, THEN conjunct1]
  from c a1 a2 t1 t2 t3 show ?thesis by (intro exI conjI)
qed

end
